theory Spec2Isabelle
  imports Complex_Main "HOL-Library.Product_Lexorder"
begin

section \<open>Admission policies of the law-school fairness notebook\<close>

text \<open>
  The notebook \<^verbatim>\<open>Kai_Project_copy.ipynb\<close> defines \<^verbatim>\<open>normalize\<close> and three ranking
  policies, \<^verbatim>\<open>NaivePolicy\<close>, \<^verbatim>\<open>UnawarePolicy\<close> and \<^verbatim>\<open>FairPolicy\<close>. This theory embeds them.

  Conventions of the embedding.
  \<^item> A per-observation array of shape \<open>[n, 1]\<close> (a column) is a list of its \<open>n\<close> entries; two
    columns have the same \<^verbatim>\<open>shape\<close> exactly when the lists have the same length. A design
    matrix of shape \<open>[n, 2]\<close> is the list of its rows.
  \<^item> The entries of the input columns are finite numbers, idealised as reals (no rounding).
    Results of numpy arithmetic are values of \<open>npfloat\<close>, which adds the IEEE special values
    that a division by zero produces; signed zeros are not distinguished.
  \<^item> An exception is a value \<open>Inl e\<close> of the result.
\<close>

subsection \<open>Exceptions and dynamically typed arguments\<close>

datatype error =
    AssertionError
  | AttributeError string
  | IndexError
  | ValueError
  | TypeError

text \<open>The values a caller can pass for \<^verbatim>\<open>nb_seats\<close>. \<open>PyInt\<close> and \<open>PyBool\<close> are the
  instances of Python's \<^verbatim>\<open>int\<close> (\<^verbatim>\<open>bool\<close> is a subclass of \<^verbatim>\<open>int\<close>); a float, a string or
  any other object is not.\<close>

datatype pyval = PyNone | PyInt int | PyBool bool | PyFloat real | PyStr string

subsection \<open>Numpy numbers\<close>

datatype npfloat = Fin real | PInf | NInf | NaN

fun np_neg :: "npfloat \<Rightarrow> npfloat" where
  "np_neg (Fin a) = Fin (- a)"
| "np_neg PInf = NInf"
| "np_neg NInf = PInf"
| "np_neg NaN = NaN"

fun np_add :: "npfloat \<Rightarrow> npfloat \<Rightarrow> npfloat" where
  "np_add NaN y = NaN"
| "np_add x NaN = NaN"
| "np_add (Fin a) (Fin b) = Fin (a + b)"
| "np_add (Fin a) y = y"
| "np_add x (Fin b) = x"
| "np_add PInf PInf = PInf"
| "np_add NInf NInf = NInf"
| "np_add PInf NInf = NaN"
| "np_add NInf PInf = NaN"

definition np_sub :: "npfloat \<Rightarrow> npfloat \<Rightarrow> npfloat" where
  "np_sub x y = np_add x (np_neg y)"

fun np_mul :: "npfloat \<Rightarrow> npfloat \<Rightarrow> npfloat" where
  "np_mul NaN y = NaN"
| "np_mul x NaN = NaN"
| "np_mul (Fin a) (Fin b) = Fin (a * b)"
| "np_mul (Fin a) PInf = (if a = 0 then NaN else if 0 < a then PInf else NInf)"
| "np_mul (Fin a) NInf = (if a = 0 then NaN else if 0 < a then NInf else PInf)"
| "np_mul PInf (Fin b) = (if b = 0 then NaN else if 0 < b then PInf else NInf)"
| "np_mul NInf (Fin b) = (if b = 0 then NaN else if 0 < b then NInf else PInf)"
| "np_mul PInf PInf = PInf"
| "np_mul NInf NInf = PInf"
| "np_mul PInf NInf = NInf"
| "np_mul NInf PInf = NInf"

text \<open>Division of numpy floats does not raise: a zero divisor gives \<open>NaN\<close> for a zero
  dividend and an infinity otherwise.\<close>

fun np_div :: "npfloat \<Rightarrow> npfloat \<Rightarrow> npfloat" where
  "np_div NaN y = NaN"
| "np_div x NaN = NaN"
| "np_div (Fin a) (Fin b) =
     (if b \<noteq> 0 then Fin (a / b) else if a = 0 then NaN else if 0 < a then PInf else NInf)"
| "np_div (Fin a) y = Fin 0"
| "np_div PInf (Fin b) = (if 0 \<le> b then PInf else NInf)"
| "np_div NInf (Fin b) = (if 0 \<le> b then NInf else PInf)"
| "np_div x y = NaN"

fun np_sign :: "npfloat \<Rightarrow> npfloat" where
  "np_sign (Fin a) = Fin (sgn a)"
| "np_sign PInf = Fin 1"
| "np_sign NInf = Fin (- 1)"
| "np_sign NaN = NaN"

text \<open>\<^verbatim>\<open>np.mean\<close> and \<^verbatim>\<open>np.std\<close> (population standard deviation) of a column; both are
  \<open>NaN\<close> on an empty array.\<close>

definition np_mean :: "real list \<Rightarrow> npfloat" where
  "np_mean x = (if x = [] then NaN else Fin (sum_list x / real (length x)))"

definition np_std :: "real list \<Rightarrow> npfloat" where
  "np_std x =
     (if x = [] then NaN
      else Fin (sqrt (sum_list (map (\<lambda>v. (v - sum_list x / real (length x))\<^sup>2) x) / real (length x))))"

text \<open>The order in which numpy sorts floats: \<open>-inf\<close>, the finite numbers, \<open>inf\<close>, and
  \<open>nan\<close> last.\<close>

fun np_key :: "npfloat \<Rightarrow> nat \<times> real" where
  "np_key NInf = (0, 0)"
| "np_key (Fin r) = (1, r)"
| "np_key PInf = (2, 0)"
| "np_key NaN = (3, 0)"

text \<open>Modelled from the spec: \<^verbatim>\<open>x.argsort(axis=0)\<close> is numpy's, not the notebook's. On a
  column it gives the row indices in ascending order of their entries; the specification
  says that ties are broken by the underlying stable sort order, so rows with equal entries
  keep their index order. (The notebook does not pass a sort kind; only the order among
  equal entries depends on this choice.)\<close>

definition argsort :: "npfloat list \<Rightarrow> nat list" where
  "argsort xs = sort_key (\<lambda>i. np_key (xs ! i)) [0..<length xs]"

text \<open>The slice \<^verbatim>\<open>a[-k:]\<close> for \<open>k \<ge> 0\<close>: the last \<open>k\<close> entries, and the whole array when
  \<open>k = 0\<close> (since \<^verbatim>\<open>-0\<close> is \<^verbatim>\<open>0\<close>) or when \<open>k\<close> exceeds the length.\<close>

definition slice_last :: "nat \<Rightarrow> 'a list \<Rightarrow> 'a list" where
  "slice_last k a = (if k = 0 then a else drop (length a - k) a)"

text \<open>\<^verbatim>\<open>P[ind] = True\<close>: every index must be in range, otherwise numpy raises.\<close>

definition assign_true :: "bool list \<Rightarrow> nat list \<Rightarrow> error + bool list" where
  "assign_true P ind =
     (if list_all (\<lambda>i. i < length P) ind
      then Inr (fold (\<lambda>i Q. Q[i := True]) ind P)
      else Inl IndexError)"

text \<open>\<^verbatim>\<open>np.hstack([a, b])\<close> of two columns is the two-column matrix of their rows; it raises
  when the row counts differ.\<close>

definition hstack :: "'a list \<Rightarrow> 'a list \<Rightarrow> error + 'a list list" where
  "hstack a b = (if length a = length b then Inr (map2 (\<lambda>u v. [u, v]) a b) else Inl ValueError)"

subsection \<open>normalize\<close>

text \<open>\<^verbatim>\<open>def normalize(x): return (x - np.mean(x)) / np.std(x)\<close>. The constant is named
  \<open>normalize_column\<close>, since \<open>normalize\<close> is a constant of the library.\<close>

definition normalize_column :: "real list \<Rightarrow> npfloat list" where
  "normalize_column x = map (\<lambda>v. np_div (np_sub (Fin v) (np_mean x)) (np_std x)) x"

subsection \<open>The part shared by the three \<^verbatim>\<open>evaluate\<close> methods\<close>

text \<open>
  Every \<^verbatim>\<open>evaluate\<close> contains the same two blocks. The first fixes the seat count:
  \<^verbatim>\<open>
        if nb_seats is None:
            nb_seats = nb_obs
        else:
            assert isinstance(nb_seats, int) and (nb_seats > 0)
            nb_seats = min(nb_obs, nb_seats)
  \<close>
\<close>

fun seat_count :: "nat \<Rightarrow> pyval \<Rightarrow> error + nat" where
  "seat_count nb_obs PyNone = Inr nb_obs"
| "seat_count nb_obs (PyInt s) =
     (if 0 < s then Inr (nat (min (int nb_obs) s)) else Inl AssertionError)"
| "seat_count nb_obs (PyBool b) =
     (if b then Inr (min nb_obs 1) else Inl AssertionError)"
| "seat_count nb_obs (PyFloat r) = Inl AssertionError"
| "seat_count nb_obs (PyStr s) = Inl AssertionError"

text \<open>
  The second ranks a score column and builds the mask:
  \<^verbatim>\<open>
        ind = score.argsort(axis=0)[-nb_seats:][::-1]
        P = np.zeros([nb_obs, 1]).astype(bool)
        P[ind] = True
        return P
  \<close>
\<close>

definition top_indices :: "npfloat list \<Rightarrow> nat \<Rightarrow> nat list" where
  "top_indices score nb_seats = rev (slice_last nb_seats (argsort score))"

definition rank_mask :: "npfloat list \<Rightarrow> nat \<Rightarrow> nat \<Rightarrow> error + bool list" where
  "rank_mask score nb_obs nb_seats =
     assign_true (replicate nb_obs False) (top_indices score nb_seats)"

subsection \<open>NaivePolicy\<close>

definition NaivePolicy_evaluate :: "real list \<Rightarrow> real list \<Rightarrow> pyval \<Rightarrow> error + bool list" where
  "NaivePolicy_evaluate G L nb_seats =
     (if length G \<noteq> length L then Inl AssertionError
      else let nb_obs = length G in
        case seat_count nb_obs nb_seats of
          Inl e \<Rightarrow> Inl e
        | Inr k \<Rightarrow> rank_mask (map2 np_add (normalize_column G) (normalize_column L)) nb_obs k)"

subsection \<open>The scikit-learn calls\<close>

text \<open>
  The policies call four scikit-learn operations and \<^verbatim>\<open>np.corrcoef\<close>. They are parameters of
  the embedding, each allowed to raise:
  \<^item> \<open>train_test_split rng X y\<close> is \<^verbatim>\<open>train_test_split(X, y, test_size=0.33)\<close>, where \<open>rng\<close>
    is the state of the global random generator at the call (the seed is not fixed by the
    notebook); the result is \<open>(X_train, X_test, y_train, y_test)\<close>;
  \<^item> \<open>LinearRegression_fit X y\<close> is \<^verbatim>\<open>LinearRegression().fit(X, y)\<close>, \<open>predict m X\<close> is
    \<^verbatim>\<open>m.predict(X)\<close>;
  \<^item> \<open>PCA_fit X\<close> is \<^verbatim>\<open>PCA(whiten=True, n_components=1).fit(X)\<close>, \<open>transform p X\<close> is
    \<^verbatim>\<open>p.transform(X)\<close>;
  \<^item> \<open>corrcoef a g\<close> is \<^verbatim>\<open>np.corrcoef(a.T, g.T)[0, 1]\<close>.
\<close>

record ('m, 'p, 'r) sklearn =
  train_test_split ::
    "'r \<Rightarrow> real list list \<Rightarrow> real list \<Rightarrow>
       error + (real list list \<times> real list list \<times> real list \<times> real list)"
  LinearRegression_fit :: "real list list \<Rightarrow> real list \<Rightarrow> error + 'm"
  predict :: "'m \<Rightarrow> real list list \<Rightarrow> error + real list"
  PCA_fit :: "real list list \<Rightarrow> error + 'p"
  transform :: "'p \<Rightarrow> real list list \<Rightarrow> error + npfloat list"
  corrcoef :: "npfloat list \<Rightarrow> real list \<Rightarrow> error + npfloat"

text \<open>The difference \<^verbatim>\<open>a - b\<close> of two columns, with numpy's broadcasting of a one-row
  operand; other row counts that differ raise.\<close>

definition col_sub :: "real list \<Rightarrow> real list \<Rightarrow> error + real list" where
  "col_sub a b =
     (if length a = length b then Inr (map2 (\<lambda>u v. u - v) a b)
      else if length b = 1 then Inr (map (\<lambda>u. u - hd b) a)
      else if length a = 1 then Inr (map (\<lambda>v. hd a - v) b)
      else Inl ValueError)"

subsection \<open>UnawarePolicy\<close>

text \<open>An instance has the attribute \<^verbatim>\<open>F_reg\<close> only after \<^verbatim>\<open>train\<close> has assigned it. The
  methods are typed on the record scheme, so that they apply to an instance that carries
  further attributes.\<close>

record 'm UnawarePolicy =
  F_reg :: "'m option"

definition UnawarePolicy_init :: "'m UnawarePolicy" where
  "UnawarePolicy_init = \<lparr>F_reg = None\<rparr>"

text \<open>
  \<^verbatim>\<open>
    def train(self, G, L, F):
        X_train, X_test, y_train, y_test = train_test_split(np.hstack([G, L]), F, test_size=0.33)
        self.F_reg = LinearRegression().fit(X_train,y_train)
        y_pred    = self.F_reg.predict(X_test)
  \<close>
  The result is the instance after the call and the exception that ended it, if any.
\<close>

definition UnawarePolicy_train ::
  "('m, 'p, 'r) sklearn \<Rightarrow> 'r \<Rightarrow> ('m, 'z) UnawarePolicy_scheme
     \<Rightarrow> real list \<Rightarrow> real list \<Rightarrow> real list
     \<Rightarrow> ('m, 'z) UnawarePolicy_scheme \<times> error option" where
  "UnawarePolicy_train lib rng self G L F =
     (case hstack G L of
        Inl e \<Rightarrow> (self, Some e)
      | Inr X \<Rightarrow>
     (case train_test_split lib rng X F of
        Inl e \<Rightarrow> (self, Some e)
      | Inr (X_train, X_test, y_train, y_test) \<Rightarrow>
     (case LinearRegression_fit lib X_train y_train of
        Inl e \<Rightarrow> (self, Some e)
      | Inr m \<Rightarrow>
     (case predict lib m X_test of
        Inl e \<Rightarrow> (self\<lparr>F_reg := Some m\<rparr>, Some e)
      | Inr y_pred \<Rightarrow> (self\<lparr>F_reg := Some m\<rparr>, None)))))"

definition UnawarePolicy_evaluate ::
  "('m, 'p, 'r) sklearn \<Rightarrow> ('m, 'z) UnawarePolicy_scheme \<Rightarrow> real list \<Rightarrow> real list \<Rightarrow> pyval
     \<Rightarrow> error + bool list" where
  "UnawarePolicy_evaluate lib self G L nb_seats =
     (if length G \<noteq> length L then Inl AssertionError
      else let nb_obs = length G in
        case seat_count nb_obs nb_seats of
          Inl e \<Rightarrow> Inl e
        | Inr k \<Rightarrow>
       (case F_reg self of
          None \<Rightarrow> Inl (AttributeError ''F_reg'')
        | Some m \<Rightarrow>
       (case hstack G L of
          Inl e \<Rightarrow> Inl e
        | Inr X \<Rightarrow>
       (case predict lib m X of
          Inl e \<Rightarrow> Inl e
        | Inr F_hat \<Rightarrow> rank_mask (map Fin F_hat) nb_obs k))))"

subsection \<open>FairPolicy\<close>

record ('m, 'p) FairPolicy =
  G_reg :: "'m option"
  L_reg :: "'m option"
  A_reg :: "'p option"
  sgn_attr :: "npfloat option"

definition FairPolicy_init :: "('m, 'p) FairPolicy" where
  "FairPolicy_init = \<lparr>G_reg = None, L_reg = None, A_reg = None, sgn_attr = None\<rparr>"

text \<open>
  The residual columns \<^verbatim>\<open>G - g.predict(np.hstack([R, S]))\<close> and
  \<^verbatim>\<open>L - l.predict(np.hstack([R, S]))\<close>, stacked: the argument of \<^verbatim>\<open>PCA.fit\<close> in \<^verbatim>\<open>train\<close>
  and of \<^verbatim>\<open>transform\<close> in \<^verbatim>\<open>train\<close> and \<^verbatim>\<open>evaluate\<close>. \<open>X\<close> is \<^verbatim>\<open>np.hstack([R, S])\<close>.
\<close>

definition residuals ::
  "('m, 'p, 'r) sklearn \<Rightarrow> 'm \<Rightarrow> 'm \<Rightarrow> real list list \<Rightarrow> real list \<Rightarrow> real list
     \<Rightarrow> error + real list list" where
  "residuals lib g l X G L =
     (case predict lib g X of
        Inl e \<Rightarrow> Inl e
      | Inr G_hat \<Rightarrow>
     (case col_sub G G_hat of
        Inl e \<Rightarrow> Inl e
      | Inr G_err \<Rightarrow>
     (case predict lib l X of
        Inl e \<Rightarrow> Inl e
      | Inr L_hat \<Rightarrow>
     (case col_sub L L_hat of
        Inl e \<Rightarrow> Inl e
      | Inr L_err \<Rightarrow> hstack G_err L_err))))"

text \<open>
  \<^verbatim>\<open>
    def train(self, R, S, G, L):
        self.G_reg = LinearRegression().fit(np.hstack([R, S]), G)
        X_train, X_test, y_train, y_test = train_test_split(np.hstack([R, S]), G, test_size=0.33)
        self.G_reg = LinearRegression().fit(X_train,y_train)
        y_pred    = self.G_reg.predict(X_test)
        self.L_reg = LinearRegression().fit(np.hstack([R, S]), L)
        X_train, X_test, y_train, y_test = train_test_split(np.hstack([R, S]), L, test_size=0.33)
        self.L_reg = LinearRegression().fit(X_train,y_train)
        y_pred    = self.L_reg.predict(X_test)
        G_err = G - self.G_reg.predict(np.hstack([R, S]))
        L_err = L - self.L_reg.predict(np.hstack([R, S]))
        self.A_reg = PCA(whiten=True, n_components=1).fit(np.hstack([G_err, L_err]))
        self.sgn = np.sign(np.corrcoef(self.A_reg.transform(np.hstack([G_err, L_err])).T, G.T)[0, 1])
  \<close>
  \<open>rng1\<close> and \<open>rng2\<close> are the generator states at the two calls of \<^verbatim>\<open>train_test_split\<close>.
  \<^verbatim>\<open>np.hstack([R, S])\<close> has the same value at each of its occurrences and is bound once.
\<close>

definition FairPolicy_train ::
  "('m, 'p, 'r) sklearn \<Rightarrow> 'r \<Rightarrow> 'r \<Rightarrow> ('m, 'p, 'z) FairPolicy_scheme
     \<Rightarrow> real list \<Rightarrow> real list \<Rightarrow> real list \<Rightarrow> real list
     \<Rightarrow> ('m, 'p, 'z) FairPolicy_scheme \<times> error option" where
  "FairPolicy_train lib rng1 rng2 self R S G L =
     (case hstack R S of
        Inl e \<Rightarrow> (self, Some e)
      | Inr X \<Rightarrow>
     (case LinearRegression_fit lib X G of
        Inl e \<Rightarrow> (self, Some e)
      | Inr g0 \<Rightarrow> let self1 = self\<lparr>G_reg := Some g0\<rparr> in
     (case train_test_split lib rng1 X G of
        Inl e \<Rightarrow> (self1, Some e)
      | Inr (X_train, X_test, y_train, y_test) \<Rightarrow>
     (case LinearRegression_fit lib X_train y_train of
        Inl e \<Rightarrow> (self1, Some e)
      | Inr g \<Rightarrow> let self2 = self1\<lparr>G_reg := Some g\<rparr> in
     (case predict lib g X_test of
        Inl e \<Rightarrow> (self2, Some e)
      | Inr y_pred \<Rightarrow>
     (case LinearRegression_fit lib X L of
        Inl e \<Rightarrow> (self2, Some e)
      | Inr l0 \<Rightarrow> let self3 = self2\<lparr>L_reg := Some l0\<rparr> in
     (case train_test_split lib rng2 X L of
        Inl e \<Rightarrow> (self3, Some e)
      | Inr (X_train', X_test', y_train', y_test') \<Rightarrow>
     (case LinearRegression_fit lib X_train' y_train' of
        Inl e \<Rightarrow> (self3, Some e)
      | Inr l \<Rightarrow> let self4 = self3\<lparr>L_reg := Some l\<rparr> in
     (case predict lib l X_test' of
        Inl e \<Rightarrow> (self4, Some e)
      | Inr y_pred' \<Rightarrow>
     (case residuals lib g l X G L of
        Inl e \<Rightarrow> (self4, Some e)
      | Inr E \<Rightarrow>
     (case PCA_fit lib E of
        Inl e \<Rightarrow> (self4, Some e)
      | Inr p \<Rightarrow> let self5 = self4\<lparr>A_reg := Some p\<rparr> in
     (case transform lib p E of
        Inl e \<Rightarrow> (self5, Some e)
      | Inr A \<Rightarrow>
     (case corrcoef lib A G of
        Inl e \<Rightarrow> (self5, Some e)
      | Inr c \<Rightarrow> (self5\<lparr>sgn_attr := Some (np_sign c)\<rparr>, None))))))))))))))"

text \<open>
  \<^verbatim>\<open>
    def evaluate(self, R, S, G, L, nb_seats=None):
        assert R.shape == S.shape == G.shape == L.shape
        nb_obs = R.shape[0]
        (seat count)
        G_err = G - self.G_reg.predict(np.hstack([R, S]))
        L_err = L - self.L_reg.predict(np.hstack([R, S]))
        A_hat = self.sgn * self.A_reg.transform(np.hstack([G_err, L_err]))
        (ranking)
  \<close>
  Python looks an attribute up before it evaluates the arguments of the call made on it, so
  a missing attribute is reported in the order \<^verbatim>\<open>G_reg\<close>, \<^verbatim>\<open>L_reg\<close>, \<^verbatim>\<open>sgn\<close>, \<^verbatim>\<open>A_reg\<close>.
\<close>

definition FairPolicy_evaluate ::
  "('m, 'p, 'r) sklearn \<Rightarrow> ('m, 'p, 'z) FairPolicy_scheme
     \<Rightarrow> real list \<Rightarrow> real list \<Rightarrow> real list \<Rightarrow> real list \<Rightarrow> pyval
     \<Rightarrow> error + bool list" where
  "FairPolicy_evaluate lib self R S G L nb_seats =
     (if \<not> (length R = length S \<and> length S = length G \<and> length G = length L)
      then Inl AssertionError
      else let nb_obs = length R in
        case seat_count nb_obs nb_seats of
          Inl e \<Rightarrow> Inl e
        | Inr k \<Rightarrow>
       (case G_reg self of
          None \<Rightarrow> Inl (AttributeError ''G_reg'')
        | Some g \<Rightarrow>
       (case hstack R S of
          Inl e \<Rightarrow> Inl e
        | Inr X \<Rightarrow>
       (case predict lib g X of
          Inl e \<Rightarrow> Inl e
        | Inr G_hat \<Rightarrow>
       (case col_sub G G_hat of
          Inl e \<Rightarrow> Inl e
        | Inr G_err \<Rightarrow>
       (case L_reg self of
          None \<Rightarrow> Inl (AttributeError ''L_reg'')
        | Some l \<Rightarrow>
       (case predict lib l X of
          Inl e \<Rightarrow> Inl e
        | Inr L_hat \<Rightarrow>
       (case col_sub L L_hat of
          Inl e \<Rightarrow> Inl e
        | Inr L_err \<Rightarrow>
       (case sgn_attr self of
          None \<Rightarrow> Inl (AttributeError ''sgn'')
        | Some sg \<Rightarrow>
       (case A_reg self of
          None \<Rightarrow> Inl (AttributeError ''A_reg'')
        | Some p \<Rightarrow>
       (case hstack G_err L_err of
          Inl e \<Rightarrow> Inl e
        | Inr E \<Rightarrow>
       (case transform lib p E of
          Inl e \<Rightarrow> Inl e
        | Inr A \<Rightarrow> rank_mask (map (np_mul sg) A) nb_obs k))))))))))))"

subsection \<open>Instances and arrays held by reference\<close>

text \<open>
  Python passes the instance and the arrays by reference. A heap maps a reference to the
  object it denotes; a call of \<^verbatim>\<open>train\<close> reads the arrays, runs the method on the instance
  and stores the instance back. A reference that does not denote an object of the expected
  class raises.
\<close>

datatype ('m, 'p) obj =
    Array "real list"
  | NaiveObj
  | UnawareObj "'m UnawarePolicy"
  | FairObj "('m, 'p) FairPolicy"


fun the_array :: "('m, 'p) obj option \<Rightarrow> real list option" where
  "the_array (Some (Array a)) = Some a"
| "the_array x = None"

fun the_unaware :: "('m, 'p) obj option \<Rightarrow> 'm UnawarePolicy option" where
  "the_unaware (Some (UnawareObj s)) = Some s"
| "the_unaware x = None"

fun the_fair :: "('m, 'p) obj option \<Rightarrow> ('m, 'p) FairPolicy option" where
  "the_fair (Some (FairObj s)) = Some s"
| "the_fair x = None"



subsection \<open>A reference implementation of the library calls\<close>

text \<open>
  Modelled from the spec: the scikit-learn calls are external collaborators; the
  specification names them as the standard least-squares solution of ordinary least squares
  and the standard principal-component analysis by eigendecomposition of the covariance
  matrix. The definitions below implement them in exact arithmetic for design matrices with
  two columns. They serve to run the policies on concrete data; the general theorems hold
  for every library.
\<close>

definition is_design :: "real list list \<Rightarrow> bool" where
  "is_design X = (X \<noteq> [] \<and> list_all (\<lambda>row. length row = 2) X)"

definition column :: "nat \<Rightarrow> real list list \<Rightarrow> real list" where
  "column j X = map (\<lambda>row. row ! j) X"

definition avg :: "real list \<Rightarrow> real" where
  "avg a = sum_list a / real (length a)"

definition cross :: "real list \<Rightarrow> real list \<Rightarrow> real" where
  "cross a b = sum_list (map2 (\<lambda>u v. (u - avg a) * (v - avg b)) a b)"

text \<open>The shuffled split: \<open>perm\<close> is the permutation of the row indices that the generator
  draws; the first \<open>\<lceil>0.33 n\<rceil>\<close> indices form the test part, the others the training part,
  which must not be empty.\<close>

definition permutation_split ::
  "nat list \<Rightarrow> real list list \<Rightarrow> real list
     \<Rightarrow> error + (real list list \<times> real list list \<times> real list \<times> real list)" where
  "permutation_split perm X y =
     (let n = length X; n_test = (33 * n + 99) div 100 in
      if n = 0 \<or> length y \<noteq> n \<or> sort perm \<noteq> [0..<n] \<or> n - n_test = 0 then Inl ValueError
      else let test = take n_test perm; train = drop n_test perm in
        Inr (map (\<lambda>i. X ! i) train, map (\<lambda>i. X ! i) test,
             map (\<lambda>i. y ! i) train, map (\<lambda>i. y ! i) test))"

text \<open>Least squares with an intercept on two regressors: the solution of the normal
  equations of the centred data, and the solution of least norm when they are singular.
  The model is (intercept, coefficient of column 0, coefficient of column 1).\<close>

definition ols_fit :: "real list list \<Rightarrow> real list \<Rightarrow> error + (real \<times> real \<times> real)" where
  "ols_fit X y =
     (if \<not> is_design X \<or> length y \<noteq> length X then Inl ValueError
      else let g = column 0 X; l = column 1 X;
               sgg = cross g g; sll = cross l l; sgl = cross g l;
               sgy = cross g y; sly = cross l y;
               det = sgg * sll - sgl * sgl;
               b1 = (if det \<noteq> 0 then (sll * sgy - sgl * sly) / det
                     else if sgg + sll \<noteq> 0 then sgy / (sgg + sll) else 0);
               b2 = (if det \<noteq> 0 then (sgg * sly - sgl * sgy) / det
                     else if sgg + sll \<noteq> 0 then sly / (sgg + sll) else 0)
           in Inr (avg y - b1 * avg g - b2 * avg l, b1, b2))"

fun ols_predict :: "real \<times> real \<times> real \<Rightarrow> real list list \<Rightarrow> error + real list" where
  "ols_predict (b0, b1, b2) X =
     (if \<not> is_design X then Inl ValueError
      else Inr (map (\<lambda>row. b0 + b1 * (row ! 0) + b2 * (row ! 1)) X))"

fun np_sqrt :: "npfloat \<Rightarrow> npfloat" where
  "np_sqrt (Fin a) = (if 0 \<le> a then Fin (sqrt a) else NaN)"
| "np_sqrt PInf = PInf"
| "np_sqrt x = NaN"

text \<open>One whitened principal component of a two-column matrix: the column means, the unit
  eigenvector of the larger eigenvalue of the scatter matrix, oriented so that its loading
  of larger magnitude is positive, and the explained variance.\<close>

type_synonym pca_model = "real \<times> real \<times> real \<times> real \<times> npfloat"

definition pca_fit :: "real list list \<Rightarrow> error + pca_model" where
  "pca_fit X =
     (if \<not> is_design X then Inl ValueError
      else let g = column 0 X; l = column 1 X;
               a = cross g g; c = cross l l; b = cross g l;
               lam = (a + c) / 2 + sqrt (((a - c) / 2)\<^sup>2 + b\<^sup>2);
               w1 = (if b \<noteq> 0 then b else if c \<le> a then 1 else 0);
               w2 = (if b \<noteq> 0 then lam - a else if c \<le> a then 0 else 1);
               nrm = sqrt (w1\<^sup>2 + w2\<^sup>2);
               s = (if \<bar>w2\<bar> \<le> \<bar>w1\<bar> then sgn w1 else sgn w2)
           in Inr (avg g, avg l, s * w1 / nrm, s * w2 / nrm,
                   np_div (Fin lam) (Fin (real (length X) - 1))))"

fun pca_transform :: "pca_model \<Rightarrow> real list list \<Rightarrow> error + npfloat list" where
  "pca_transform (mg, ml, v1, v2, ev) X =
     (if \<not> is_design X then Inl ValueError
      else Inr (map (\<lambda>row. np_div (Fin ((row ! 0 - mg) * v1 + (row ! 1 - ml) * v2)) (np_sqrt ev)) X))"

fun is_fin :: "npfloat \<Rightarrow> bool" where
  "is_fin (Fin a) = True"
| "is_fin x = False"

fun fin_val :: "npfloat \<Rightarrow> real" where
  "fin_val (Fin a) = a"
| "fin_val x = 0"

definition pearson :: "npfloat list \<Rightarrow> real list \<Rightarrow> error + npfloat" where
  "pearson a g =
     (if length a \<noteq> length g then Inl ValueError
      else if a = [] \<or> \<not> list_all is_fin a then Inr NaN
      else let x = map fin_val a in
        Inr (np_div (Fin (cross x g)) (Fin (sqrt (cross x x * cross g g)))))"

definition reference_sklearn :: "(real \<times> real \<times> real, pca_model, nat list) sklearn" where
  "reference_sklearn =
     \<lparr>train_test_split = permutation_split,
      LinearRegression_fit = ols_fit,
      predict = ols_predict,
      PCA_fit = pca_fit,
      transform = pca_transform,
      corrcoef = pearson\<rparr>"

subsection \<open>The notions of the specification\<close>

text \<open>The rows that a mask accepts.\<close>

definition accepted :: "bool list \<Rightarrow> nat set" where
  "accepted P = {i. i < length P \<and> P ! i}"

text \<open>Row \<open>j\<close> ranks below row \<open>i\<close>: its score is smaller in numpy's order, or the scores
  are equal and \<open>j\<close> comes first (the tie-break of a stable ascending sort).\<close>

definition ranks_below :: "npfloat list \<Rightarrow> nat \<Rightarrow> nat \<Rightarrow> bool" where
  "ranks_below score j i =
     (np_key (score ! j) < np_key (score ! i) \<or>
      (np_key (score ! j) = np_key (score ! i) \<and> j < i))"

text \<open>\<open>A\<close> is the set of the indices of the top \<open>k\<close> values of the score: \<open>k\<close> rows, each
  ranking above every row left out.\<close>

definition is_top_k :: "npfloat list \<Rightarrow> nat \<Rightarrow> nat set \<Rightarrow> bool" where
  "is_top_k score k A =
     (A \<subseteq> {0..<length score} \<and> card A = k \<and>
      (\<forall>i\<in>A. \<forall>j\<in>{0..<length score} - A. ranks_below score j i))"

text \<open>A seat count that is given and is not a positive integer.\<close>

fun bad_seats :: "pyval \<Rightarrow> bool" where
  "bad_seats PyNone = False"
| "bad_seats (PyInt s) = (s \<le> 0)"
| "bad_seats (PyBool b) = (\<not> b)"
| "bad_seats (PyFloat r) = True"
| "bad_seats (PyStr s) = True"



text \<open>The score of the fair policy in the words of the specification: the residuals of
  \<open>G\<close> and \<open>L\<close> under the fitted regressors, projected through the fitted component and
  multiplied by the sign.\<close>

definition fair_score ::
  "('m, 'p, 'r) sklearn \<Rightarrow> 'm \<Rightarrow> 'm \<Rightarrow> 'p \<Rightarrow> npfloat
     \<Rightarrow> real list \<Rightarrow> real list \<Rightarrow> real list \<Rightarrow> real list \<Rightarrow> error + npfloat list" where
  "fair_score lib g l p sg R S G L =
     (case hstack R S of
        Inl e \<Rightarrow> Inl e
      | Inr X \<Rightarrow>
     (case residuals lib g l X G L of
        Inl e \<Rightarrow> Inl e
      | Inr E \<Rightarrow>
     (case transform lib p E of
        Inl e \<Rightarrow> Inl e
      | Inr A \<Rightarrow> Inr (map (np_mul sg) A))))"

text \<open>What the policies expect of the library on a design matrix with at least one row:
  \<^verbatim>\<open>predict\<close> and \<^verbatim>\<open>transform\<close> return one value for each row.\<close>

definition sklearn_contract :: "('m, 'p, 'r) sklearn \<Rightarrow> bool" where
  "sklearn_contract lib =
     ((\<forall>m X. is_design X \<longrightarrow> (\<exists>y. predict lib m X = Inr y \<and> length y = length X)) \<and>
      (\<forall>p X. is_design X \<longrightarrow> (\<exists>A. transform lib p X = Inr A \<and> length A = length X)))"

subsection \<open>A heap for concrete runs\<close>


section \<open>Auxiliary lemmas\<close>

subsection \<open>Ranking and masks\<close>

lemma argsort_length: "length (argsort xs) = length xs"
  by (simp add: argsort_def)

lemma argsort_set: "set (argsort xs) = {0..<length xs}"
  by (simp add: argsort_def)

lemma argsort_distinct: "distinct (argsort xs)"
  by (simp add: argsort_def)

lemma insort_key_ranked:
  fixes f :: "nat \<Rightarrow> 'k::linorder"
  assumes "sorted_wrt (\<lambda>i j. f i < f j \<or> (f i = f j \<and> i < j)) ys"
    and "\<forall>y\<in>set ys. x < y"
  shows "sorted_wrt (\<lambda>i j. f i < f j \<or> (f i = f j \<and> i < j)) (insort_key f x ys)"
  using assms
proof (induction ys)
  case Nil
  then show ?case by simp
next
  case (Cons y ys)
  show ?case
  proof (cases "f x \<le> f y")
    case True
    have "\<forall>z\<in>set ys. f y \<le> f z" using Cons.prems(1) by auto
    then have "\<forall>z\<in>set (y # ys). f x \<le> f z" using True by auto
    moreover have "\<forall>z\<in>set (y # ys). x < z" using Cons.prems(2) by simp
    ultimately have "\<forall>z\<in>set (y # ys). f x < f z \<or> (f x = f z \<and> x < z)"
      by (metis le_less)
    then show ?thesis using True Cons.prems(1) by simp
  next
    case False
    then have "f y < f x" by simp
    moreover have "sorted_wrt (\<lambda>i j. f i < f j \<or> (f i = f j \<and> i < j)) (insort_key f x ys)"
      using Cons.IH Cons.prems by simp
    ultimately show ?thesis using False Cons.prems(1) by (auto simp: set_insort_key)
  qed
qed

lemma sort_key_ranked:
  fixes f :: "nat \<Rightarrow> 'k::linorder"
  assumes "sorted_wrt (<) xs"
  shows "sorted_wrt (\<lambda>i j. f i < f j \<or> (f i = f j \<and> i < j)) (sort_key f xs)"
  using assms
proof (induction xs)
  case Nil
  then show ?case by simp
next
  case (Cons x xs)
  then show ?case by (simp add: insort_key_ranked)
qed

lemma argsort_ranked: "sorted_wrt (ranks_below xs) (argsort xs)"
proof -
  have "sorted_wrt (\<lambda>i j. np_key (xs ! i) < np_key (xs ! j) \<or> (np_key (xs ! i) = np_key (xs ! j) \<and> i < j))
          (sort_key (\<lambda>i. np_key (xs ! i)) [0..<length xs])"
    by (rule sort_key_ranked) simp
  then show ?thesis
    unfolding argsort_def ranks_below_def .
qed

lemma slice_last_length:
  "k \<le> length a \<Longrightarrow> (k = 0 \<longrightarrow> a = []) \<Longrightarrow> length (slice_last k a) = k"
  by (auto simp: slice_last_def)

lemma slice_last_drop:
  "(k = 0 \<longrightarrow> a = []) \<Longrightarrow> slice_last k a = drop (length a - k) a"
  by (auto simp: slice_last_def)

lemma top_indices_set_drop:
  assumes "k = 0 \<longrightarrow> score = []"
  shows "set (top_indices score k) = set (drop (length score - k) (argsort score))"
proof -
  have "k = 0 \<longrightarrow> argsort score = []" using assms by (auto simp: argsort_def)
  then show ?thesis
    by (simp add: top_indices_def slice_last_drop argsort_length)
qed

lemma top_indices_distinct: "distinct (top_indices score k)"
  by (simp add: top_indices_def slice_last_def argsort_distinct)

lemma top_indices_length:
  "k \<le> length score \<Longrightarrow> (k = 0 \<longrightarrow> score = []) \<Longrightarrow> length (top_indices score k) = k"
  by (auto simp: top_indices_def slice_last_def argsort_length)

lemma top_indices_range: "set (top_indices score k) \<subseteq> {0..<length score}"
proof -
  have "set (slice_last k (argsort score)) \<subseteq> set (argsort score)"
    by (auto simp: slice_last_def dest: in_set_dropD)
  then show ?thesis by (simp add: top_indices_def argsort_set)
qed

lemma top_indices_is_top_k:
  assumes "k \<le> length score" and "k = 0 \<longrightarrow> score = []"
  shows "is_top_k score k (set (top_indices score k))"
proof -
  let ?p = "argsort score"
  let ?m = "length score - k"
  have split: "?p = take ?m ?p @ drop ?m ?p" by simp
  have "sorted_wrt (ranks_below score) (take ?m ?p @ drop ?m ?p)"
    using argsort_ranked [of score] by simp
  then have below: "\<forall>j\<in>set (take ?m ?p). \<forall>i\<in>set (drop ?m ?p). ranks_below score j i"
    by (simp only: sorted_wrt_append) blast
  have top: "set (top_indices score k) = set (drop ?m ?p)"
    using assms(2) by (rule top_indices_set_drop)
  have cover: "{0..<length score} = set (take ?m ?p) \<union> set (drop ?m ?p)"
    using argsort_set [of score] set_append [of "take ?m ?p" "drop ?m ?p"] by simp
  have "card (set (top_indices score k)) = k"
    using top_indices_distinct [of score k] top_indices_length [OF assms]
    by (simp add: distinct_card)
  moreover have "\<forall>i\<in>set (top_indices score k). \<forall>j\<in>{0..<length score} - set (top_indices score k).
      ranks_below score j i"
    using below top cover by blast
  ultimately show ?thesis
    using top_indices_range [of score k] by (simp add: is_top_k_def)
qed

lemma fold_update_true_length:
  "length (fold (\<lambda>i Q. Q[i := True]) ind P) = length P"
  by (induction ind arbitrary: P) simp_all

lemma fold_update_true_nth:
  "i < length P \<Longrightarrow> fold (\<lambda>i Q. Q[i := True]) ind P ! i = (P ! i \<or> i \<in> set ind)"
proof (induction ind arbitrary: P)
  case Nil
  then show ?case by simp
next
  case (Cons a ind)
  have "fold (\<lambda>i Q. Q[i := True]) (a # ind) P ! i = (P[a := True] ! i \<or> i \<in> set ind)"
    using Cons.IH [of "P[a := True]"] Cons.prems by simp
  also have "P[a := True] ! i = (P ! i \<or> i = a)"
    using Cons.prems by (cases "i = a") simp_all
  finally show ?case by auto
qed

lemma assign_true_ok:
  assumes "set ind \<subseteq> {0..<n}"
  shows "\<exists>P. assign_true (replicate n False) ind = Inr P \<and> length P = n \<and> accepted P = set ind"
proof -
  let ?P = "fold (\<lambda>i Q. Q[i := True]) ind (replicate n False)"
  have "list_all (\<lambda>i. i < length (replicate n False)) ind"
    using assms by (auto simp: list_all_iff)
  then have "assign_true (replicate n False) ind = Inr ?P"
    by (simp add: assign_true_def)
  moreover have len: "length ?P = n" by (simp add: fold_update_true_length)
  moreover have "accepted ?P = set ind"
    using assms by (auto simp: accepted_def len fold_update_true_nth)
  ultimately show ?thesis by blast
qed

lemma rank_mask_ok:
  assumes "length score = n"
  shows "\<exists>P. rank_mask score n k = Inr P \<and> length P = n \<and> accepted P = set (top_indices score k)"
  unfolding rank_mask_def
  using assign_true_ok [of "top_indices score k" n] top_indices_range [of score k] assms by simp

lemma count_true_card: "length (filter (\<lambda>b. b) P) = card (accepted P)"
  by (simp add: length_filter_conv_card accepted_def)


lemma normalize_column_length: "length (normalize_column x) = length x"
  by (simp add: normalize_column_def)

lemma seat_count_PyInt:
  "0 < s \<Longrightarrow> seat_count n (PyInt s) = Inr (min (nat s) n)"
  by (auto simp: min_def)

lemma accepted_all:
  assumes "length P = n" and "accepted P = {0..<n}"
  shows "P = replicate n True"
proof -
  have "P ! i" if "i < n" for i
  proof -
    from that have "i \<in> accepted P" using assms(2) by simp
    then show ?thesis by (simp add: accepted_def)
  qed
  then show ?thesis using assms(1) by (simp add: list_eq_iff_nth_eq)
qed

lemma is_top_k_all:
  assumes "is_top_k score (length score) A"
  shows "A = {0..<length score}"
proof -
  have "A \<subseteq> {0..<length score}" and "card A = card {0..<length score}"
    using assms by (simp_all add: is_top_k_def)
  then show ?thesis by (simp add: card_subset_eq)
qed

lemma rank_mask_top_k:
  assumes "length score = n" and "k \<le> n" and "k = 0 \<longrightarrow> n = 0"
  shows "\<exists>P. rank_mask score n k = Inr P \<and> length P = n \<and> is_top_k score k (accepted P)"
proof -
  have "k \<le> length score" and "k = 0 \<longrightarrow> score = []" using assms by auto
  then have top: "is_top_k score k (set (top_indices score k))"
    by (rule top_indices_is_top_k)
  obtain P where "rank_mask score n k = Inr P" "length P = n" "accepted P = set (top_indices score k)"
    using rank_mask_ok [OF assms(1), of k] by blast
  then show ?thesis using top by simp
qed

lemma rank_mask_all:
  assumes "length score = n"
  shows "rank_mask score n n = Inr (replicate n True)"
proof -
  obtain P where P: "rank_mask score n n = Inr P" "length P = n" "is_top_k score n (accepted P)"
    using rank_mask_top_k [OF assms, of n] by blast
  have "accepted P = {0..<n}" using is_top_k_all [of score "accepted P"] P(3) assms by simp
  then have "P = replicate n True" using P(2) by (rule accepted_all [rotated])
  then show ?thesis using P(1) by simp
qed

subsection \<open>Standardisation\<close>













subsection \<open>Seat counts\<close>

lemma seat_count_bad: "bad_seats ns \<Longrightarrow> seat_count n ns = Inl AssertionError"
  by (cases ns) auto

subsection \<open>The evaluate methods of the trained policies\<close>

lemma ref_simps:
  "train_test_split reference_sklearn = permutation_split"
  "LinearRegression_fit reference_sklearn = ols_fit"
  "predict reference_sklearn = ols_predict"
  "PCA_fit reference_sklearn = pca_fit"
  "transform reference_sklearn = pca_transform"
  "corrcoef reference_sklearn = pearson"
  by (simp_all add: reference_sklearn_def)

lemma hstack_ok: "length a = length b \<Longrightarrow> hstack a b = Inr (map2 (\<lambda>u v. [u, v]) a b)"
  by (simp add: hstack_def)

lemma hstack_length: "hstack a b = Inr X \<Longrightarrow> length X = length a \<and> length a = length b"
  by (auto simp: hstack_def split: if_splits)

lemma UnawarePolicy_evaluate_trained:
  assumes "length G = length L" and "seat_count (length G) ns = Inr k"
    and "F_reg u = Some m" and "hstack G L = Inr X" and "predict lib m X = Inr F_hat"
  shows "UnawarePolicy_evaluate lib u G L ns = rank_mask (map Fin F_hat) (length G) k"
  using assms by (simp add: UnawarePolicy_evaluate_def Let_def del: seat_count.simps)

lemma FairPolicy_evaluate_trained:
  assumes "length R = length S" "length S = length G" "length G = length L"
    and "seat_count (length R) ns = Inr k"
    and "G_reg f = Some g" "L_reg f = Some l" "A_reg f = Some p" "sgn_attr f = Some sg"
  shows "FairPolicy_evaluate lib f R S G L ns =
     (case fair_score lib g l p sg R S G L of
        Inl e \<Rightarrow> Inl e
      | Inr sc \<Rightarrow> rank_mask sc (length R) k)"
  using assms
  by (simp add: FairPolicy_evaluate_def fair_score_def residuals_def Let_def
      del: seat_count.simps split: sum.splits)

subsection \<open>The top of a ranking\<close>









subsection \<open>Training runs and the reference library\<close>

lemma FairPolicy_train_NoneE:
  assumes "FairPolicy_train lib r1 r2 f R S G L = (f', None)"
  obtains X g0 XG XG_test yG yG_test g y_pred l0 XL XL_test yL yL_test l y_pred' E p A c
  where "hstack R S = Inr X"
    and "LinearRegression_fit lib X G = Inr g0"
    and "train_test_split lib r1 X G = Inr (XG, XG_test, yG, yG_test)"
    and "LinearRegression_fit lib XG yG = Inr g"
    and "predict lib g XG_test = Inr y_pred"
    and "LinearRegression_fit lib X L = Inr l0"
    and "train_test_split lib r2 X L = Inr (XL, XL_test, yL, yL_test)"
    and "LinearRegression_fit lib XL yL = Inr l"
    and "predict lib l XL_test = Inr y_pred'"
    and "residuals lib g l X G L = Inr E"
    and "PCA_fit lib E = Inr p"
    and "transform lib p E = Inr A"
    and "corrcoef lib A G = Inr c"
    and "f' = f\<lparr>G_reg := Some g, L_reg := Some l, A_reg := Some p, sgn_attr := Some (np_sign c)\<rparr>"
  using assms unfolding FairPolicy_train_def Let_def
  by (auto split: sum.splits prod.splits)

lemma FairPolicy_train_success:
  assumes "hstack R S = Inr X"
    and "LinearRegression_fit lib X G = Inr g0"
    and "train_test_split lib r1 X G = Inr (XG, XG_test, yG, yG_test)"
    and "LinearRegression_fit lib XG yG = Inr g"
    and "predict lib g XG_test = Inr y_pred"
    and "LinearRegression_fit lib X L = Inr l0"
    and "train_test_split lib r2 X L = Inr (XL, XL_test, yL, yL_test)"
    and "LinearRegression_fit lib XL yL = Inr l"
    and "predict lib l XL_test = Inr y_pred'"
    and "residuals lib g l X G L = Inr E"
    and "PCA_fit lib E = Inr p"
    and "transform lib p E = Inr A"
    and "corrcoef lib A G = Inr c"
  shows "FairPolicy_train lib r1 r2 f R S G L =
    (f\<lparr>G_reg := Some g, L_reg := Some l, A_reg := Some p, sgn_attr := Some (np_sign c)\<rparr>, None)"
  using assms by (simp add: FairPolicy_train_def)

lemma hstack_design:
  assumes "hstack a b = Inr X" and "a \<noteq> []"
  shows "is_design X"
proof -
  have "length a = length b" and X: "X = map2 (\<lambda>u v. [u, v]) a b"
    using assms(1) by (auto simp: hstack_def split: if_splits)
  then have "X \<noteq> []" using assms(2) by (cases a; cases b) auto
  moreover have "list_all (\<lambda>row. length row = 2) X"
    by (auto simp: X list_all_iff)
  ultimately show ?thesis by (simp add: is_design_def)
qed

lemma ols_fit_ok: "is_design X \<Longrightarrow> length y = length X \<Longrightarrow> \<exists>m. ols_fit X y = Inr m"
  by (simp add: ols_fit_def Let_def)

lemma ols_predict_ok:
  "is_design X \<Longrightarrow> \<exists>y. ols_predict m X = Inr y \<and> length y = length X"
  by (cases m) simp

lemma pca_fit_ok: "is_design X \<Longrightarrow> \<exists>p. pca_fit X = Inr p"
  by (simp add: pca_fit_def Let_def)

lemma pca_transform_ok:
  "is_design X \<Longrightarrow> \<exists>A. pca_transform p X = Inr A \<and> length A = length X"
  by (cases p) simp

lemma pearson_ok: "length A = length G \<Longrightarrow> \<exists>c. pearson A G = Inr c"
  by (simp add: pearson_def Let_def)

lemma reference_contract: "sklearn_contract reference_sklearn"
  by (simp add: sklearn_contract_def ref_simps ols_predict_ok pca_transform_ok)

lemma col_sub_ok: "length a = length b \<Longrightarrow> col_sub a b = Inr (map2 (\<lambda>u v. u - v) a b)"
  by (simp add: col_sub_def)

lemma residuals_ok:
  assumes "sklearn_contract lib" and "is_design X"
    and "length G = length X" and "length L = length X"
  shows "\<exists>E. residuals lib g l X G L = Inr E \<and> is_design E \<and> length E = length X"
proof -
  obtain G_hat where G_hat: "predict lib g X = Inr G_hat" "length G_hat = length X"
    using assms(1,2) unfolding sklearn_contract_def by blast
  obtain L_hat where L_hat: "predict lib l X = Inr L_hat" "length L_hat = length X"
    using assms(1,2) unfolding sklearn_contract_def by blast
  let ?G_err = "map2 (\<lambda>u v. u - v) G G_hat"
  let ?L_err = "map2 (\<lambda>u v. u - v) L L_hat"
  have g: "col_sub G G_hat = Inr ?G_err" using assms(3) G_hat(2) by (simp add: col_sub_ok)
  have l: "col_sub L L_hat = Inr ?L_err" using assms(4) L_hat(2) by (simp add: col_sub_ok)
  have len: "length ?G_err = length X" "length ?L_err = length X"
    using assms(3,4) G_hat(2) L_hat(2) by simp_all
  then obtain E where E: "hstack ?G_err ?L_err = Inr E" by (simp add: hstack_def)
  have "X \<noteq> []" using assms(2) by (simp add: is_design_def)
  then have "?G_err \<noteq> []" using len(1) by (metis length_0_conv)
  then have "is_design E" using E hstack_design by blast
  moreover have "length E = length X" using E len hstack_length by fastforce
  moreover have "residuals lib g l X G L = Inr E"
    by (simp add: residuals_def G_hat(1) L_hat(1) g l E)
  ultimately show ?thesis by blast
qed

lemma fair_score_ok:
  assumes "sklearn_contract lib" and "R \<noteq> []"
    and "length R = length S" and "length S = length G" and "length G = length L"
  shows "\<exists>sc. fair_score lib g l p sg R S G L = Inr sc \<and> length sc = length R"
proof -
  obtain X where X: "hstack R S = Inr X" using assms(3) by (simp add: hstack_def)
  then have d: "is_design X" and n: "length X = length R"
    using assms(2) hstack_design hstack_length by blast+
  have "length G = length X" "length L = length X" using assms(3-5) n by simp_all
  then obtain E where E: "residuals lib g l X G L = Inr E" "is_design E" "length E = length X"
    using residuals_ok [OF assms(1) d, of G L g l] by blast
  obtain A where A: "transform lib p E = Inr A" "length A = length E"
    using assms(1) E(2) unfolding sklearn_contract_def by blast
  have "fair_score lib g l p sg R S G L = Inr (map (np_mul sg) A)"
    by (simp add: fair_score_def X E(1) A(1))
  then show ?thesis using A(2) E(3) n by simp
qed

lemma permutation_split_parts:
  assumes "permutation_split perm X y = Inr (Xa, Xb, ya, yb)" and "is_design X"
  shows "is_design Xa \<and> is_design Xb \<and> length ya = length Xa \<and> length yb = length Xb"
proof -
  let ?n = "length X"
  let ?t = "(33 * ?n + 99) div 100"
  from assms(1) have c: "?n \<noteq> 0" "sort perm = [0..<?n]" "?n - ?t \<noteq> 0"
    and Xa: "Xa = map (\<lambda>i. X ! i) (drop ?t perm)" and Xb: "Xb = map (\<lambda>i. X ! i) (take ?t perm)"
    and ya: "ya = map (\<lambda>i. y ! i) (drop ?t perm)" and yb: "yb = map (\<lambda>i. y ! i) (take ?t perm)"
    by (auto simp: permutation_split_def Let_def split: if_splits)
  have "set perm = set (sort perm)" by simp
  then have sp: "set perm = {0..<?n}" using c(2) by simp
  have "length perm = length (sort perm)" by simp
  then have lp: "length perm = ?n" using c(2) by simp
  have rows: "\<forall>i\<in>set perm. length (X ! i) = 2"
    using sp assms(2) by (auto simp: is_design_def list_all_iff)
  have "0 < ?n" using c(1) by simp
  then have "?t \<noteq> 0" by arith
  then have "Xb \<noteq> []" "Xa \<noteq> []" using c lp by (auto simp: Xa Xb)
  moreover have "list_all (\<lambda>row. length row = 2) Xa" "list_all (\<lambda>row. length row = 2) Xb"
    using rows by (auto simp: Xa Xb list_all_iff dest: in_set_dropD in_set_takeD)
  ultimately show ?thesis by (simp add: is_design_def Xa Xb ya yb)
qed

lemma reference_FairPolicy_train_ok:
  assumes "hstack R S = Inr X" and "length G = length R" and "length L = length R"
    and "permutation_split r1 X G = Inr (XG, XG_test, yG, yG_test)"
    and "permutation_split r2 X L = Inr (XL, XL_test, yL, yL_test)"
  shows "\<exists>f'. FairPolicy_train reference_sklearn r1 r2 f R S G L = (f', None)"
proof -
  have n: "length X = length R" using assms(1) hstack_length by blast
  have "X \<noteq> []" using assms(4) by (auto simp: permutation_split_def Let_def split: if_splits)
  then have "R \<noteq> []" using n by auto
  then have d: "is_design X" using assms(1) hstack_design by blast
  have pG: "is_design XG" "is_design XG_test" "length yG = length XG"
    using permutation_split_parts [OF assms(4) d] by simp_all
  have pL: "is_design XL" "is_design XL_test" "length yL = length XL"
    using permutation_split_parts [OF assms(5) d] by simp_all
  have lG: "length G = length X" and lL: "length L = length X" using assms(2,3) n by simp_all
  obtain g0 where g0: "ols_fit X G = Inr g0" using ols_fit_ok [OF d lG] by blast
  obtain l0 where l0: "ols_fit X L = Inr l0" using ols_fit_ok [OF d lL] by blast
  obtain g where g: "ols_fit XG yG = Inr g" using ols_fit_ok pG by blast
  obtain l where l: "ols_fit XL yL = Inr l" using ols_fit_ok pL by blast
  obtain y_pred where yp: "ols_predict g XG_test = Inr y_pred" using ols_predict_ok pG(2) by blast
  obtain y_pred' where yp': "ols_predict l XL_test = Inr y_pred'" using ols_predict_ok pL(2) by blast
  obtain E where E: "residuals reference_sklearn g l X G L = Inr E" "is_design E" "length E = length X"
    using residuals_ok [OF reference_contract d lG lL, of g l] by blast
  obtain p where p: "pca_fit E = Inr p" using pca_fit_ok E(2) by blast
  obtain A where A: "pca_transform p E = Inr A" "length A = length E"
    using pca_transform_ok E(2) by blast
  have "length A = length G" using A(2) E(3) lG by simp
  then obtain c where c: "pearson A G = Inr c" using pearson_ok by blast
  have "FairPolicy_train reference_sklearn r1 r2 f R S G L =
    (f\<lparr>G_reg := Some g, L_reg := Some l, A_reg := Some p, sgn_attr := Some (np_sign c)\<rparr>, None)"
    by (simp add: FairPolicy_train_def ref_simps assms g0 l0 g l yp yp' E(1) p A(1) c)
  then show ?thesis by blast
qed

subsection \<open>Runs of the policies on concrete data\<close>

lemma run_hstack:
  "hstack [2, 1, 3, 5, 4 :: real] [1, 3, 2, 4, 5] = Inr [[2, 1], [1, 3], [3, 2], [5, 4], [4, 5]]"
  by (simp add: hstack_def)

lemma run_split_a:
  "permutation_split [0, 1, 2, 3, 4] [[2, 1], [1, 3], [3, 2], [5, 4], [4, 5]] [1, 3, 2, 4, 3]
     = Inr ([[3, 2], [5, 4], [4, 5]], [[2, 1], [1, 3]], [2, 4, 3], [1, 3])"
  by code_simp

lemma run_split_b:
  "permutation_split [3, 4, 0, 1, 2] [[2, 1], [1, 3], [3, 2], [5, 4], [4, 5]] [1, 3, 2, 4, 3]
     = Inr ([[2, 1], [1, 3], [3, 2]], [[5, 4], [4, 5]], [1, 3, 2], [4, 3])"
  by code_simp

lemma run_fit_a: "ols_fit [[3, 2], [5, 4], [4, 5]] [2, 4, 3] = Inr (- 1, 1, 0)"
  by code_simp

lemma run_fit_b: "ols_fit [[2, 1], [1, 3], [3, 2]] [1, 3, 2] = Inr (0, 0, 1)"
  by code_simp

lemma run_predict_a: "ols_predict (- 1, 1, 0) [[2, 1], [1, 3]] = Inr [1, 0]"
  by code_simp

lemma run_predict_b: "ols_predict (0, 0, 1) [[5, 4], [4, 5]] = Inr [4, 5]"
  by code_simp

lemma run_train_a:
  "UnawarePolicy_train reference_sklearn [0, 1, 2, 3, 4] UnawarePolicy_init
     [2, 1, 3, 5, 4] [1, 3, 2, 4, 5] [1, 3, 2, 4, 3] = (\<lparr>F_reg = Some (- 1, 1, 0)\<rparr>, None)"
  unfolding UnawarePolicy_train_def ref_simps run_hstack sum.case run_split_a prod.case
    run_fit_a run_predict_a UnawarePolicy_init_def
  by simp

lemma run_train_b:
  "UnawarePolicy_train reference_sklearn [3, 4, 0, 1, 2] UnawarePolicy_init
     [2, 1, 3, 5, 4] [1, 3, 2, 4, 5] [1, 3, 2, 4, 3] = (\<lparr>F_reg = Some (0, 0, 1)\<rparr>, None)"
  unfolding UnawarePolicy_train_def ref_simps run_hstack sum.case run_split_b prod.case
    run_fit_b run_predict_b UnawarePolicy_init_def
  by simp

lemma run_evaluate_a:
  "UnawarePolicy_evaluate reference_sklearn \<lparr>F_reg = Some (- 1, 1, 0)\<rparr>
     [2, 1, 3, 5, 4] [1, 3, 2, 4, 5] (PyInt 1) = Inr [False, False, False, True, False]"
  by (simp add: UnawarePolicy_evaluate_def ref_simps hstack_def is_design_def rank_mask_def
      top_indices_def slice_last_def argsort_def assign_true_def upt_rec)

lemma run_evaluate_b:
  "UnawarePolicy_evaluate reference_sklearn \<lparr>F_reg = Some (0, 0, 1)\<rparr>
     [2, 1, 3, 5, 4] [1, 3, 2, 4, 5] (PyInt 1) = Inr [False, False, False, False, True]"
  by (simp add: UnawarePolicy_evaluate_def ref_simps hstack_def is_design_def rank_mask_def
      top_indices_def slice_last_def argsort_def assign_true_def upt_rec)

lemma run_split_c:
  "permutation_split [1, 0, 2, 3, 4] [[2, 1], [1, 3], [3, 2], [5, 4], [4, 5]] [1, 3, 2, 4, 3]
     = Inr ([[3, 2], [5, 4], [4, 5]], [[1, 3], [2, 1]], [2, 4, 3], [3, 1])"
  by code_simp

lemma fair_hstack:
  "hstack [0, 1, 0, 1 :: real] [0, 0, 1, 1] = Inr [[0, 0], [1, 0], [0, 1], [1, 1]]"
  by (simp add: hstack_def)

lemma fair_split_G:
  "permutation_split [0, 1, 2, 3] [[0, 0], [1, 0], [0, 1], [1, 1]] [1, 2, 3, 5]
     = Inr ([[0, 1], [1, 1]], [[0, 0], [1, 0]], [3, 5], [1, 2])"
  "permutation_split [1, 0, 2, 3] [[0, 0], [1, 0], [0, 1], [1, 1]] [1, 2, 3, 5]
     = Inr ([[0, 1], [1, 1]], [[1, 0], [0, 0]], [3, 5], [2, 1])"
  by code_simp+

lemma fair_split_L:
  "permutation_split [2, 3, 0, 1] [[0, 0], [1, 0], [0, 1], [1, 1]] [2, 1, 4, 3]
     = Inr ([[0, 0], [1, 0]], [[0, 1], [1, 1]], [2, 1], [4, 3])"
  "permutation_split [3, 2, 0, 1] [[0, 0], [1, 0], [0, 1], [1, 1]] [2, 1, 4, 3]
     = Inr ([[0, 0], [1, 0]], [[1, 1], [0, 1]], [2, 1], [3, 4])"
  by code_simp+

subsection \<open>Training twice\<close>

lemma UnawarePolicy_train_again:
  "UnawarePolicy_train lib rng (fst (UnawarePolicy_train lib rng u G L F)) G L F
     = UnawarePolicy_train lib rng u G L F"
  by (simp add: UnawarePolicy_train_def split: sum.splits prod.splits)

lemma FairPolicy_train_again:
  "FairPolicy_train lib rng1 rng2 (fst (FairPolicy_train lib rng1 rng2 f R S G L)) R S G L
     = FairPolicy_train lib rng1 rng2 f R S G L"
  by (simp add: FairPolicy_train_def Let_def split: sum.splits prod.splits)

subsection \<open>The effect of train on the heap\<close>

lemma the_array_unaware: "the_array x = Some a \<Longrightarrow> the_unaware x = None"
  by (cases x rule: the_array.cases) simp_all

lemma the_array_fair: "the_array x = Some a \<Longrightarrow> the_fair x = None"
  by (cases x rule: the_array.cases) simp_all

lemma the_array_Some: "the_array x = Some a \<longleftrightarrow> x = Some (Array a)"
  by (cases x rule: the_array.cases) auto





lemma UnawarePolicy_train_NoneE:
  assumes "UnawarePolicy_train lib rng u G L F = (u', None)"
  obtains X X_train X_test y_train y_test m y_pred
  where "hstack G L = Inr X"
    and "train_test_split lib rng X F = Inr (X_train, X_test, y_train, y_test)"
    and "LinearRegression_fit lib X_train y_train = Inr m"
    and "predict lib m X_test = Inr y_pred"
    and "u' = u\<lparr>F_reg := Some m\<rparr>"
  using assms unfolding UnawarePolicy_train_def
  by (auto split: sum.splits prod.splits)

lemma UnawarePolicy_train_independent:
  assumes "UnawarePolicy_train lib rng u G L F = (u', None)"
  shows "\<exists>m. u' = u\<lparr>F_reg := Some m\<rparr> \<and>
    UnawarePolicy_train lib rng u0 G L F = (u0\<lparr>F_reg := Some m\<rparr>, None)"
  using assms
proof (rule UnawarePolicy_train_NoneE)
  fix X X_train X_test y_train y_test m y_pred
  assume 1: "hstack G L = Inr X"
    "train_test_split lib rng X F = Inr (X_train, X_test, y_train, y_test)"
    "LinearRegression_fit lib X_train y_train = Inr m"
    "predict lib m X_test = Inr y_pred"
    "u' = u\<lparr>F_reg := Some m\<rparr>"
  have "UnawarePolicy_train lib rng u0 G L F = (u0\<lparr>F_reg := Some m\<rparr>, None)"
    using 1(1-4) by (simp add: UnawarePolicy_train_def)
  then show "\<exists>m. u' = u\<lparr>F_reg := Some m\<rparr> \<and>
    UnawarePolicy_train lib rng u0 G L F = (u0\<lparr>F_reg := Some m\<rparr>, None)"
    using 1(5) by blast
qed

lemma FairPolicy_train_independent:
  assumes "FairPolicy_train lib rng1 rng2 f R S G L = (f', None)"
  shows "\<exists>g l p c.
    f' = f\<lparr>G_reg := Some g, L_reg := Some l, A_reg := Some p, sgn_attr := Some (np_sign c)\<rparr> \<and>
    FairPolicy_train lib rng1 rng2 f0 R S G L =
      (f0\<lparr>G_reg := Some g, L_reg := Some l, A_reg := Some p, sgn_attr := Some (np_sign c)\<rparr>, None)"
  using assms
proof (rule FairPolicy_train_NoneE)
  fix X g0 XG XG_test yG yG_test g y_pred l0 XL XL_test yL yL_test l y_pred' E p A c
  assume 1: "hstack R S = Inr X"
    "LinearRegression_fit lib X G = Inr g0"
    "train_test_split lib rng1 X G = Inr (XG, XG_test, yG, yG_test)"
    "LinearRegression_fit lib XG yG = Inr g"
    "predict lib g XG_test = Inr y_pred"
    "LinearRegression_fit lib X L = Inr l0"
    "train_test_split lib rng2 X L = Inr (XL, XL_test, yL, yL_test)"
    "LinearRegression_fit lib XL yL = Inr l"
    "predict lib l XL_test = Inr y_pred'"
    "residuals lib g l X G L = Inr E"
    "PCA_fit lib E = Inr p"
    "transform lib p E = Inr A"
    "corrcoef lib A G = Inr c"
    "f' = f\<lparr>G_reg := Some g, L_reg := Some l, A_reg := Some p, sgn_attr := Some (np_sign c)\<rparr>"
  have "FairPolicy_train lib rng1 rng2 f0 R S G L =
    (f0\<lparr>G_reg := Some g, L_reg := Some l, A_reg := Some p, sgn_attr := Some (np_sign c)\<rparr>, None)"
    using 1(1-13) by (rule FairPolicy_train_success)
  then show "\<exists>g l p c.
    f' = f\<lparr>G_reg := Some g, L_reg := Some l, A_reg := Some p, sgn_attr := Some (np_sign c)\<rparr> \<and>
    FairPolicy_train lib rng1 rng2 f0 R S G L =
      (f0\<lparr>G_reg := Some g, L_reg := Some l, A_reg := Some p, sgn_attr := Some (np_sign c)\<rparr>, None)"
    using 1(14) by blast
qed



subsection \<open>Evaluation before and after training\<close>

lemma seat_count_good:
  assumes "\<not> bad_seats ns"
  shows "\<exists>k. seat_count n ns = Inr k"
  using assms by (cases ns) auto

lemma rank_mask_returns:
  assumes "length score = n"
  shows "\<exists>P. rank_mask score n k = Inr P \<and> length P = n"
  using rank_mask_ok [OF assms, of k] by blast

lemma UnawarePolicy_evaluate_untrained:
  assumes "length G = length L" and "\<not> bad_seats ns" and "F_reg u = None"
  shows "UnawarePolicy_evaluate lib u G L ns = Inl (AttributeError ''F_reg'')"
proof -
  obtain k where "seat_count (length G) ns = Inr k" using seat_count_good [OF assms(2)] by blast
  then show ?thesis using assms(1,3)
    by (simp add: UnawarePolicy_evaluate_def Let_def del: seat_count.simps)
qed

lemma FairPolicy_evaluate_untrained:
  assumes "length R = length S" "length S = length G" "length G = length L"
    and "\<not> bad_seats ns" and "G_reg f = None"
  shows "FairPolicy_evaluate lib f R S G L ns = Inl (AttributeError ''G_reg'')"
proof -
  obtain k where "seat_count (length R) ns = Inr k" using seat_count_good [OF assms(4)] by blast
  then show ?thesis using assms(1-3,5)
    by (simp add: FairPolicy_evaluate_def Let_def del: seat_count.simps)
qed

lemma UnawarePolicy_evaluate_after_train:
  assumes "sklearn_contract lib" and "UnawarePolicy_train lib rng u G0 L0 F0 = (u', None)"
    and "G \<noteq> []" and "length G = length L" and "\<not> bad_seats ns"
  shows "\<exists>P. UnawarePolicy_evaluate lib u' G L ns = Inr P \<and> length P = length G"
proof -
  obtain m where "u' = u\<lparr>F_reg := Some m\<rparr>"
    using UnawarePolicy_train_independent [OF assms(2), of u] by blast
  then have m: "F_reg u' = Some m" by simp
  obtain k where k: "seat_count (length G) ns = Inr k" using seat_count_good [OF assms(5)] by blast
  obtain X where X: "hstack G L = Inr X" using assms(4) by (simp add: hstack_def)
  then have "is_design X" and n: "length X = length G"
    using assms(3) hstack_design hstack_length by blast+
  then obtain F_hat where F: "predict lib m X = Inr F_hat" "length F_hat = length X"
    using assms(1) unfolding sklearn_contract_def by blast
  have "UnawarePolicy_evaluate lib u' G L ns = rank_mask (map Fin F_hat) (length G) k"
    using assms(4) k m X F(1) by (rule UnawarePolicy_evaluate_trained)
  moreover have "length (map Fin F_hat) = length G" using F(2) n by simp
  ultimately show ?thesis using rank_mask_returns by metis
qed

lemma FairPolicy_evaluate_after_train:
  assumes "sklearn_contract lib" and "FairPolicy_train lib rng1 rng2 f R0 S0 G0 L0 = (f', None)"
    and "R \<noteq> []" and "length R = length S" "length S = length G" "length G = length L"
    and "\<not> bad_seats ns"
  shows "\<exists>P. FairPolicy_evaluate lib f' R S G L ns = Inr P \<and> length P = length R"
proof -
  obtain g l p c where
    "f' = f\<lparr>G_reg := Some g, L_reg := Some l, A_reg := Some p, sgn_attr := Some (np_sign c)\<rparr>"
    using FairPolicy_train_independent [OF assms(2), of f] by blast
  then have a: "G_reg f' = Some g" "L_reg f' = Some l" "A_reg f' = Some p"
    "sgn_attr f' = Some (np_sign c)" by simp_all
  obtain k where k: "seat_count (length R) ns = Inr k" using seat_count_good [OF assms(7)] by blast
  obtain sc where sc: "fair_score lib g l p (np_sign c) R S G L = Inr sc" "length sc = length R"
    using fair_score_ok [OF assms(1,3-6)] by blast
  have "FairPolicy_evaluate lib f' R S G L ns =
     (case fair_score lib g l p (np_sign c) R S G L of
        Inl e \<Rightarrow> Inl e | Inr sc \<Rightarrow> rank_mask sc (length R) k)"
    using assms(4-6) k a by (rule FairPolicy_evaluate_trained)
  then have "FairPolicy_evaluate lib f' R S G L ns = rank_mask sc (length R) k"
    by (simp add: sc(1))
  then show ?thesis using rank_mask_returns [OF sc(2)] by metis
qed

subsection \<open>The steps of the fair policy\<close>







section \<open>Verified properties of the policies\<close>

text \<open>
  C2. For columns \<open>G\<close> and \<open>L\<close> of equal shape and a positive integer \<^verbatim>\<open>nb_seats\<close>,
  \<^verbatim>\<open>NaivePolicy.evaluate\<close> returns a boolean vector of length \<open>nb_obs\<close> with exactly
  \<open>min(nb_seats, nb_obs)\<close> entries true; when \<^verbatim>\<open>nb_seats\<close> is greater than \<open>nb_obs\<close> the
  vector is all true. (The property does not need the columns to be non-constant: a
  constant column makes the scores \<open>NaN\<close>, which \<^verbatim>\<open>argsort\<close> still ranks.)
\<close>

theorem NaivePolicy_evaluate_count:
  assumes "length G = length L" and "0 < s"
  shows "\<exists>P. NaivePolicy_evaluate G L (PyInt s) = Inr P \<and> length P = length G \<and>
           length (filter (\<lambda>b. b) P) = min (nat s) (length G) \<and>
           (int (length G) < s \<longrightarrow> P = replicate (length G) True)"
proof -
  let ?n = "length G"
  let ?k = "min (nat s) ?n"
  let ?score = "map2 np_add (normalize_column G) (normalize_column L)"
  have len: "length ?score = ?n" using assms(1) by (simp add: normalize_column_length)
  have k: "?k \<le> ?n" "?k = 0 \<longrightarrow> ?n = 0" using assms(2) by (auto simp: min_def)
  have ev: "NaivePolicy_evaluate G L (PyInt s) = rank_mask ?score ?n ?k"
    using assms by (simp add: NaivePolicy_evaluate_def seat_count_PyInt Let_def del: seat_count.simps)
  obtain P where P: "rank_mask ?score ?n ?k = Inr P" "length P = ?n" "is_top_k ?score ?k (accepted P)"
    using rank_mask_top_k [OF len k] by blast
  have "card (accepted P) = ?k" using P(3) by (simp add: is_top_k_def)
  then have cnt: "length (filter (\<lambda>b. b) P) = ?k" by (simp add: count_true_card)
  have "int ?n < s \<longrightarrow> P = replicate ?n True"
  proof
    assume "int ?n < s"
    then have "?k = ?n" by auto
    then show "P = replicate ?n True" using rank_mask_all [OF len] P(1) by simp
  qed
  then have "NaivePolicy_evaluate G L (PyInt s) = Inr P \<and> length P = length G \<and>
           length (filter (\<lambda>b. b) P) = min (nat s) (length G) \<and>
           (int (length G) < s \<longrightarrow> P = replicate (length G) True)"
    using ev P(1,2) cnt by simp
  then show ?thesis ..
qed

theorem NaivePolicy_evaluate_count_witness:
  "length [1, 2, 4 :: real] = length [3, 1, 2 :: real] \<and> (0::int) < 5 \<and>
   NaivePolicy_evaluate [1, 2, 4] [3, 1, 2] (PyInt 5) = Inr [True, True, True]"
proof -
  have h1: "length [1, 2, 4 :: real] = length [3, 1, 2 :: real]" by simp
  have h2: "(0::int) < 5" by simp
  obtain P where "NaivePolicy_evaluate [1, 2, 4] [3, 1, 2] (PyInt 5) = Inr P"
    and "int (length [1, 2, 4 :: real]) < 5 \<longrightarrow> P = replicate (length [1, 2, 4 :: real]) True"
    using NaivePolicy_evaluate_count [OF h1 h2] by blast
  then have "NaivePolicy_evaluate [1, 2, 4] [3, 1, 2] (PyInt 5) = Inr [True, True, True]"
    by simp
  then show ?thesis using h1 h2 by blast
qed



text \<open>
  C5. For every policy, \<^verbatim>\<open>evaluate\<close> called with paired input arrays of different shapes, or
  with a seat count that is given and is not a positive integer, raises \<^verbatim>\<open>AssertionError\<close>
  and returns no mask. (An integer is an instance of Python's \<^verbatim>\<open>int\<close>, which includes
  \<^verbatim>\<open>True\<close> with value 1 and \<^verbatim>\<open>False\<close> with value 0.)
\<close>

theorem evaluate_precondition_failure:
  "(length G \<noteq> length L \<or> bad_seats nb_seats \<longrightarrow>
      NaivePolicy_evaluate G L nb_seats = Inl AssertionError \<and>
      UnawarePolicy_evaluate lib u G L nb_seats = Inl AssertionError) \<and>
   (\<not> (length R = length S \<and> length S = length G \<and> length G = length L) \<or> bad_seats nb_seats \<longrightarrow>
      FairPolicy_evaluate lib f R S G L nb_seats = Inl AssertionError)"
  by (simp add: NaivePolicy_evaluate_def UnawarePolicy_evaluate_def FairPolicy_evaluate_def
      seat_count_bad Let_def del: seat_count.simps)

theorem evaluate_precondition_failure_witness:
  "NaivePolicy_evaluate [1, 2] [1] (PyInt 1) = Inl AssertionError \<and>
   UnawarePolicy_evaluate reference_sklearn \<lparr>F_reg = Some (0, 1, 1)\<rparr> [1, 2] [1] (PyInt 1)
     = Inl AssertionError \<and>
   NaivePolicy_evaluate [1, 2] [2, 1] (PyInt 0) = Inl AssertionError \<and>
   UnawarePolicy_evaluate reference_sklearn \<lparr>F_reg = Some (0, 1, 1)\<rparr> [1, 2] [2, 1] (PyFloat 1)
     = Inl AssertionError \<and>
   FairPolicy_evaluate reference_sklearn
     \<lparr>G_reg = Some (0, 1, 1), L_reg = Some (0, 1, 1), A_reg = Some (0, 0, 1, 0, Fin 1),
      sgn_attr = Some (Fin 1)\<rparr> [0, 1] [1, 0] [1, 2] [1] (PyInt 1) = Inl AssertionError \<and>
   FairPolicy_evaluate reference_sklearn
     \<lparr>G_reg = Some (0, 1, 1), L_reg = Some (0, 1, 1), A_reg = Some (0, 0, 1, 0, Fin 1),
      sgn_attr = Some (Fin 1)\<rparr> [0, 1] [1, 0] [1, 2] [2, 1] (PyInt (- 3)) = Inl AssertionError"
proof -
  let ?u = "\<lparr>F_reg = Some (0 :: real, 1 :: real, 1 :: real)\<rparr>"
  let ?f = "\<lparr>G_reg = Some (0 :: real, 1 :: real, 1 :: real), L_reg = Some (0 :: real, 1 :: real, 1 :: real),
      A_reg = Some (0 :: real, 0 :: real, 1 :: real, 0 :: real, Fin 1), sgn_attr = Some (Fin 1)\<rparr>"
  have "length [1, 2 :: real] \<noteq> length [1 :: real]" by simp
  then have a: "NaivePolicy_evaluate [1, 2] [1] (PyInt 1) = Inl AssertionError \<and>
      UnawarePolicy_evaluate reference_sklearn ?u [1, 2] [1] (PyInt 1) = Inl AssertionError"
    using evaluate_precondition_failure [of "[1, 2]" "[1]" "PyInt 1" reference_sklearn ?u]
    by blast
  have "bad_seats (PyInt 0)" by simp
  then have b: "NaivePolicy_evaluate [1, 2] [2, 1] (PyInt 0) = Inl AssertionError"
    using evaluate_precondition_failure [of "[1, 2]" "[2, 1]" "PyInt 0"] by blast
  have "bad_seats (PyFloat 1)" by simp
  then have c: "UnawarePolicy_evaluate reference_sklearn ?u [1, 2] [2, 1] (PyFloat 1) = Inl AssertionError"
    using evaluate_precondition_failure [of "[1, 2]" "[2, 1]" "PyFloat 1" reference_sklearn ?u]
    by blast
  have "\<not> (length [0, 1 :: real] = length [1, 0 :: real] \<and> length [1, 0 :: real] = length [1, 2 :: real]
      \<and> length [1, 2 :: real] = length [1 :: real])" by simp
  then have d: "FairPolicy_evaluate reference_sklearn ?f [0, 1] [1, 0] [1, 2] [1] (PyInt 1) = Inl AssertionError"
    using evaluate_precondition_failure [of "[1, 2]" "[1]" "PyInt 1" reference_sklearn _ "[0, 1]" "[1, 0]" ?f]
    by blast
  have "bad_seats (PyInt (- 3))" by simp
  then have e: "FairPolicy_evaluate reference_sklearn ?f [0, 1] [1, 0] [1, 2] [2, 1] (PyInt (- 3)) = Inl AssertionError"
    using evaluate_precondition_failure [of "[1, 2]" "[2, 1]" "PyInt (- 3)" reference_sklearn _ "[0, 1]" "[1, 0]" ?f]
    by blast
  show ?thesis using a b c d e by blast
qed

text \<open>
  C10. For every policy, \<^verbatim>\<open>evaluate\<close> with \<^verbatim>\<open>nb_seats\<close> omitted (\<^verbatim>\<open>None\<close>) takes \<open>nb_obs\<close> as
  the seat count, with no check of that count, and returns the all-true mask of length
  \<open>nb_obs\<close>. For the trained policies this is under the conditions that let \<^verbatim>\<open>evaluate\<close>
  reach the ranking: the fitted attributes are set and the library returns one score for
  each row.
\<close>

theorem evaluate_default_seats:
  "seat_count n PyNone = Inr n \<and>
   (length G = length L \<longrightarrow>
      NaivePolicy_evaluate G L PyNone = Inr (replicate (length G) True)) \<and>
   (length G = length L \<and> F_reg u = Some m \<and> hstack G L = Inr X \<and>
    predict lib m X = Inr F_hat \<and> length F_hat = length G \<longrightarrow>
      UnawarePolicy_evaluate lib u G L PyNone = Inr (replicate (length G) True)) \<and>
   (length R = length S \<and> length S = length G' \<and> length G' = length L' \<and>
    G_reg f = Some g \<and> L_reg f = Some l \<and> A_reg f = Some p \<and> sgn_attr f = Some sg \<and>
    fair_score lib g l p sg R S G' L' = Inr sc \<and> length sc = length R \<longrightarrow>
      FairPolicy_evaluate lib f R S G' L' PyNone = Inr (replicate (length R) True))"
proof (intro conjI impI)
  show "seat_count n PyNone = Inr n" by simp
next
  assume "length G = length L"
  then have "length (map2 np_add (normalize_column G) (normalize_column L)) = length G"
    by (simp add: normalize_column_length)
  then have "rank_mask (map2 np_add (normalize_column G) (normalize_column L)) (length G) (length G)
      = Inr (replicate (length G) True)"
    by (rule rank_mask_all)
  then show "NaivePolicy_evaluate G L PyNone = Inr (replicate (length G) True)"
    using \<open>length G = length L\<close> by (simp add: NaivePolicy_evaluate_def Let_def)
next
  assume a: "length G = length L \<and> F_reg u = Some m \<and> hstack G L = Inr X \<and>
    predict lib m X = Inr F_hat \<and> length F_hat = length G"
  have sc: "seat_count (length G) PyNone = Inr (length G)" by simp
  from a have h: "length G = length L" "F_reg u = Some m" "hstack G L = Inr X"
    "predict lib m X = Inr F_hat" by blast+
  have "UnawarePolicy_evaluate lib u G L PyNone = rank_mask (map Fin F_hat) (length G) (length G)"
    using h(1) sc h(2-4) by (rule UnawarePolicy_evaluate_trained)
  moreover have "length (map Fin F_hat) = length G" using a by simp
  ultimately show "UnawarePolicy_evaluate lib u G L PyNone = Inr (replicate (length G) True)"
    by (simp add: rank_mask_all)
next
  assume a: "length R = length S \<and> length S = length G' \<and> length G' = length L' \<and>
    G_reg f = Some g \<and> L_reg f = Some l \<and> A_reg f = Some p \<and> sgn_attr f = Some sg \<and>
    fair_score lib g l p sg R S G' L' = Inr sc \<and> length sc = length R"
  have sc: "seat_count (length R) PyNone = Inr (length R)" by simp
  from a have h: "length R = length S" "length S = length G'" "length G' = length L'"
    "G_reg f = Some g" "L_reg f = Some l" "A_reg f = Some p" "sgn_attr f = Some sg" by blast+
  have "FairPolicy_evaluate lib f R S G' L' PyNone =
     (case fair_score lib g l p sg R S G' L' of
        Inl e \<Rightarrow> Inl e | Inr sc \<Rightarrow> rank_mask sc (length R) (length R))"
    using h(1-3) sc h(4-7) by (rule FairPolicy_evaluate_trained)
  then show "FairPolicy_evaluate lib f R S G' L' PyNone = Inr (replicate (length R) True)"
    using a by (simp add: rank_mask_all)
qed

theorem evaluate_default_seats_witness:
  "NaivePolicy_evaluate [1, 2] [2, 1] PyNone = Inr [True, True] \<and>
   F_reg \<lparr>F_reg = Some (0 :: real, 1 :: real, 1 :: real)\<rparr> = Some (0, 1, 1) \<and>
   hstack [1, 2 :: real] [2, 1] = Inr [[1, 2], [2, 1]] \<and>
   predict reference_sklearn (0, 1, 1) [[1, 2], [2, 1]] = Inr [3, 3] \<and>
   UnawarePolicy_evaluate reference_sklearn \<lparr>F_reg = Some (0, 1, 1)\<rparr> [1, 2] [2, 1] PyNone
     = Inr [True, True] \<and>
   fair_score reference_sklearn (0, 1, 1) (0, 1, 1) (0, 0, 1, 0, Fin 1) (Fin 1)
     [0, 1] [1, 0] [1, 2] [2, 1] = Inr [Fin 0, Fin 1] \<and>
   FairPolicy_evaluate reference_sklearn
     \<lparr>G_reg = Some (0, 1, 1), L_reg = Some (0, 1, 1), A_reg = Some (0, 0, 1, 0, Fin 1),
      sgn_attr = Some (Fin 1)\<rparr> [0, 1] [1, 0] [1, 2] [2, 1] PyNone = Inr [True, True]"
proof -
  let ?u = "\<lparr>F_reg = Some (0 :: real, 1 :: real, 1 :: real)\<rparr>"
  let ?f = "\<lparr>G_reg = Some (0 :: real, 1 :: real, 1 :: real), L_reg = Some (0 :: real, 1 :: real, 1 :: real),
      A_reg = Some (0 :: real, 0 :: real, 1 :: real, 0 :: real, Fin 1), sgn_attr = Some (Fin 1)\<rparr>"
  have h: "hstack [1, 2 :: real] [2, 1] = Inr [[1, 2], [2, 1]]"
    by (simp add: hstack_def)
  have p: "predict reference_sklearn (0, 1, 1) [[1, 2], [2, 1]] = Inr [3, 3]"
    by (simp add: ref_simps is_design_def)
  have s: "fair_score reference_sklearn (0, 1, 1) (0, 1, 1) (0, 0, 1, 0, Fin 1) (Fin 1)
     [0, 1] [1, 0] [1, 2] [2, 1] = Inr [Fin 0, Fin 1]"
    by (simp add: fair_score_def residuals_def hstack_def col_sub_def ref_simps is_design_def)
  note inst = evaluate_default_seats [where n = 2 and G = "[1, 2]" and L = "[2, 1]" and u = ?u
      and m = "(0, 1, 1)" and X = "[[1, 2], [2, 1]]" and lib = reference_sklearn
      and F_hat = "[3, 3]" and R = "[0, 1]" and S = "[1, 0]" and G' = "[1, 2]" and L' = "[2, 1]"
      and f = ?f and g = "(0, 1, 1)" and l = "(0, 1, 1)" and p = "(0, 0, 1, 0, Fin 1)"
      and sg = "Fin 1" and sc = "[Fin 0, Fin 1]"]
  have n: "NaivePolicy_evaluate [1, 2] [2, 1] PyNone = Inr [True, True]"
    using inst by (simp add: numeral_2_eq_2)
  have u: "UnawarePolicy_evaluate reference_sklearn ?u [1, 2] [2, 1] PyNone = Inr [True, True]"
    using inst h p by (simp add: numeral_2_eq_2)
  have f: "FairPolicy_evaluate reference_sklearn ?f [0, 1] [1, 0] [1, 2] [2, 1] PyNone = Inr [True, True]"
    using inst s by (simp add: numeral_2_eq_2)
  show ?thesis using h p s n u f by simp
qed



text \<open>
  C1, as amended. In \<^verbatim>\<open>UnawarePolicy.train\<close> and \<^verbatim>\<open>FairPolicy.train\<close> the regressions are fitted on
  the training part of the random split; the held-out part reaches only the prediction
  \<^verbatim>\<open>y_pred\<close>, which is discarded. So two runs of \<^verbatim>\<open>train\<close> on the same data whose random
  partitions select the same training rows, whatever their held-out parts, leave the same
  fitted parameters, and \<^verbatim>\<open>evaluate\<close> then returns the same result (for the fair policy,
  when both runs of \<^verbatim>\<open>train\<close> complete).
\<close>

theorem fit_uses_training_rows_only:
  "(hstack G L = Inr X \<and>
    train_test_split lib r X F = Inr (X_train, X_test, y_train, y_test) \<and>
    train_test_split lib r' X F = Inr (X_train, X_test', y_train, y_test') \<longrightarrow>
      fst (UnawarePolicy_train lib r u G L F) = fst (UnawarePolicy_train lib r' u G L F) \<and>
      UnawarePolicy_evaluate lib (fst (UnawarePolicy_train lib r u G L F)) G1 L1 ns =
        UnawarePolicy_evaluate lib (fst (UnawarePolicy_train lib r' u G L F)) G1 L1 ns) \<and>
   (hstack R S = Inr Z \<and>
    train_test_split lib r1 Z G' = Inr (ZG, ZG_test, yG, yG_test) \<and>
    train_test_split lib r1' Z G' = Inr (ZG, ZG_test', yG, yG_test') \<and>
    train_test_split lib r2 Z L' = Inr (ZL, ZL_test, yL, yL_test) \<and>
    train_test_split lib r2' Z L' = Inr (ZL, ZL_test', yL, yL_test') \<and>
    snd (FairPolicy_train lib r1 r2 f R S G' L') = None \<and>
    snd (FairPolicy_train lib r1' r2' f R S G' L') = None \<longrightarrow>
      fst (FairPolicy_train lib r1 r2 f R S G' L') = fst (FairPolicy_train lib r1' r2' f R S G' L') \<and>
      FairPolicy_evaluate lib (fst (FairPolicy_train lib r1 r2 f R S G' L')) R1 S1 G1 L1 ns =
        FairPolicy_evaluate lib (fst (FairPolicy_train lib r1' r2' f R S G' L')) R1 S1 G1 L1 ns)"
proof (intro conjI impI)
  assume a: "hstack G L = Inr X \<and>
    train_test_split lib r X F = Inr (X_train, X_test, y_train, y_test) \<and>
    train_test_split lib r' X F = Inr (X_train, X_test', y_train, y_test')"
  then show eq: "fst (UnawarePolicy_train lib r u G L F) = fst (UnawarePolicy_train lib r' u G L F)"
    by (simp add: UnawarePolicy_train_def split: sum.splits)
  show "UnawarePolicy_evaluate lib (fst (UnawarePolicy_train lib r u G L F)) G1 L1 ns =
        UnawarePolicy_evaluate lib (fst (UnawarePolicy_train lib r' u G L F)) G1 L1 ns"
    by (simp only: eq)
next
  assume a: "hstack R S = Inr Z \<and>
    train_test_split lib r1 Z G' = Inr (ZG, ZG_test, yG, yG_test) \<and>
    train_test_split lib r1' Z G' = Inr (ZG, ZG_test', yG, yG_test') \<and>
    train_test_split lib r2 Z L' = Inr (ZL, ZL_test, yL, yL_test) \<and>
    train_test_split lib r2' Z L' = Inr (ZL, ZL_test', yL, yL_test') \<and>
    snd (FairPolicy_train lib r1 r2 f R S G' L') = None \<and>
    snd (FairPolicy_train lib r1' r2' f R S G' L') = None"
  obtain f1 where t1: "FairPolicy_train lib r1 r2 f R S G' L' = (f1, None)"
    using a by (metis prod.collapse)
  obtain f2 where t2: "FairPolicy_train lib r1' r2' f R S G' L' = (f2, None)"
    using a by (metis prod.collapse)
  from a have sp: "hstack R S = Inr Z"
    "train_test_split lib r1 Z G' = Inr (ZG, ZG_test, yG, yG_test)"
    "train_test_split lib r1' Z G' = Inr (ZG, ZG_test', yG, yG_test')"
    "train_test_split lib r2 Z L' = Inr (ZL, ZL_test, yL, yL_test)"
    "train_test_split lib r2' Z L' = Inr (ZL, ZL_test', yL, yL_test')" by blast+
  have "f1 = f2"
    using t1
  proof (rule FairPolicy_train_NoneE)
    fix X g0 XG XG_test yG0 yG_test0 g y_pred l0 XL XL_test yL0 yL_test0 l y_pred' E p A c
    assume 1: "hstack R S = Inr X"
      "train_test_split lib r1 X G' = Inr (XG, XG_test, yG0, yG_test0)"
      "LinearRegression_fit lib XG yG0 = Inr g"
      "train_test_split lib r2 X L' = Inr (XL, XL_test, yL0, yL_test0)"
      "LinearRegression_fit lib XL yL0 = Inr l"
      "residuals lib g l X G' L' = Inr E" "PCA_fit lib E = Inr p"
      "transform lib p E = Inr A" "corrcoef lib A G' = Inr c"
      "f1 = f\<lparr>G_reg := Some g, L_reg := Some l, A_reg := Some p, sgn_attr := Some (np_sign c)\<rparr>"
    show "f1 = f2"
      using t2
    proof (rule FairPolicy_train_NoneE)
      fix X' g0' XG' XG_test' yG0' yG_test0' g' y_pred1 l0' XL' XL_test' yL0' yL_test0' l' y_pred1'
        E' p' A' c'
      assume 2: "hstack R S = Inr X'"
        "train_test_split lib r1' X' G' = Inr (XG', XG_test', yG0', yG_test0')"
        "LinearRegression_fit lib XG' yG0' = Inr g'"
        "train_test_split lib r2' X' L' = Inr (XL', XL_test', yL0', yL_test0')"
        "LinearRegression_fit lib XL' yL0' = Inr l'"
        "residuals lib g' l' X' G' L' = Inr E'" "PCA_fit lib E' = Inr p'"
        "transform lib p' E' = Inr A'" "corrcoef lib A' G' = Inr c'"
        "f2 = f\<lparr>G_reg := Some g', L_reg := Some l', A_reg := Some p', sgn_attr := Some (np_sign c')\<rparr>"
      have X: "X = Z" "X' = Z" using 1(1) 2(1) sp(1) by simp_all
      have "XG = ZG" "yG0 = yG" "XG' = ZG" "yG0' = yG" "XL = ZL" "yL0 = yL" "XL' = ZL" "yL0' = yL"
        using 1(2,4) 2(2,4) sp(2-5) X by simp_all
      then have "g = g'" "l = l'" using 1(3,5) 2(3,5) by simp_all
      then have "E = E'" using 1(6) 2(6) X by simp
      then have "p = p'" using 1(7) 2(7) by simp
      then have "c = c'" using 1(8,9) 2(8,9) \<open>E = E'\<close> by simp
      show "f1 = f2"
        using 1(10) 2(10) \<open>g = g'\<close> \<open>l = l'\<close> \<open>p = p'\<close> \<open>c = c'\<close> by simp
    qed
  qed
  then show eq: "fst (FairPolicy_train lib r1 r2 f R S G' L') = fst (FairPolicy_train lib r1' r2' f R S G' L')"
    using t1 t2 by simp
  show "FairPolicy_evaluate lib (fst (FairPolicy_train lib r1 r2 f R S G' L')) R1 S1 G1 L1 ns =
        FairPolicy_evaluate lib (fst (FairPolicy_train lib r1' r2' f R S G' L')) R1 S1 G1 L1 ns"
    by (simp only: eq)
qed

theorem fit_uses_training_rows_only_witness:
  "hstack [2, 1, 3, 5, 4 :: real] [1, 3, 2, 4, 5] = Inr [[2, 1], [1, 3], [3, 2], [5, 4], [4, 5]] \<and>
   train_test_split reference_sklearn [0, 1, 2, 3, 4]
       [[2, 1], [1, 3], [3, 2], [5, 4], [4, 5]] [1, 3, 2, 4, 3]
     = Inr ([[3, 2], [5, 4], [4, 5]], [[2, 1], [1, 3]], [2, 4, 3], [1, 3]) \<and>
   train_test_split reference_sklearn [1, 0, 2, 3, 4]
       [[2, 1], [1, 3], [3, 2], [5, 4], [4, 5]] [1, 3, 2, 4, 3]
     = Inr ([[3, 2], [5, 4], [4, 5]], [[1, 3], [2, 1]], [2, 4, 3], [3, 1]) \<and>
   fst (UnawarePolicy_train reference_sklearn [0, 1, 2, 3, 4] UnawarePolicy_init
          [2, 1, 3, 5, 4] [1, 3, 2, 4, 5] [1, 3, 2, 4, 3])
     = fst (UnawarePolicy_train reference_sklearn [1, 0, 2, 3, 4] UnawarePolicy_init
          [2, 1, 3, 5, 4] [1, 3, 2, 4, 5] [1, 3, 2, 4, 3]) \<and>
   snd (FairPolicy_train reference_sklearn [0, 1, 2, 3] [2, 3, 0, 1] FairPolicy_init
          [0, 1, 0, 1] [0, 0, 1, 1] [1, 2, 3, 5] [2, 1, 4, 3]) = None \<and>
   snd (FairPolicy_train reference_sklearn [1, 0, 2, 3] [3, 2, 0, 1] FairPolicy_init
          [0, 1, 0, 1] [0, 0, 1, 1] [1, 2, 3, 5] [2, 1, 4, 3]) = None \<and>
   fst (FairPolicy_train reference_sklearn [0, 1, 2, 3] [2, 3, 0, 1] FairPolicy_init
          [0, 1, 0, 1] [0, 0, 1, 1] [1, 2, 3, 5] [2, 1, 4, 3])
     = fst (FairPolicy_train reference_sklearn [1, 0, 2, 3] [3, 2, 0, 1] FairPolicy_init
          [0, 1, 0, 1] [0, 0, 1, 1] [1, 2, 3, 5] [2, 1, 4, 3])"
proof -
  let ?ta = "FairPolicy_train reference_sklearn [0, 1, 2, 3] [2, 3, 0, 1] FairPolicy_init
          [0, 1, 0, 1] [0, 0, 1, 1] [1, 2, 3, 5] [2, 1, 4, 3]"
  let ?tb = "FairPolicy_train reference_sklearn [1, 0, 2, 3] [3, 2, 0, 1] FairPolicy_init
          [0, 1, 0, 1] [0, 0, 1, 1] [1, 2, 3, 5] [2, 1, 4, 3]"
  have sa: "train_test_split reference_sklearn [0, 1, 2, 3, 4]
       [[2, 1], [1, 3], [3, 2], [5, 4], [4, 5]] [1, 3, 2, 4, 3]
     = Inr ([[3, 2], [5, 4], [4, 5]], [[2, 1], [1, 3]], [2, 4, 3], [1, 3])"
    unfolding ref_simps by (rule run_split_a)
  have sc: "train_test_split reference_sklearn [1, 0, 2, 3, 4]
       [[2, 1], [1, 3], [3, 2], [5, 4], [4, 5]] [1, 3, 2, 4, 3]
     = Inr ([[3, 2], [5, 4], [4, 5]], [[1, 3], [2, 1]], [2, 4, 3], [3, 1])"
    unfolding ref_simps by (rule run_split_c)
  have na: "snd ?ta = None"
    using reference_FairPolicy_train_ok [OF fair_hstack _ _ fair_split_G(1) fair_split_L(1),
        of FairPolicy_init]
    by auto
  have nb: "snd ?tb = None"
    using reference_FairPolicy_train_ok [OF fair_hstack _ _ fair_split_G(2) fair_split_L(2),
        of FairPolicy_init]
    by auto
  note inst = fit_uses_training_rows_only [where lib = reference_sklearn
      and G = "[2, 1, 3, 5, 4]" and L = "[1, 3, 2, 4, 5]" and F = "[1, 3, 2, 4, 3]"
      and X = "[[2, 1], [1, 3], [3, 2], [5, 4], [4, 5]]" and u = UnawarePolicy_init
      and r = "[0, 1, 2, 3, 4]" and r' = "[1, 0, 2, 3, 4]"
      and X_train = "[[3, 2], [5, 4], [4, 5]]" and y_train = "[2, 4, 3]"
      and X_test = "[[2, 1], [1, 3]]" and y_test = "[1, 3]"
      and X_test' = "[[1, 3], [2, 1]]" and y_test' = "[3, 1]"
      and R = "[0, 1, 0, 1]" and S = "[0, 0, 1, 1]" and G' = "[1, 2, 3, 5]" and L' = "[2, 1, 4, 3]"
      and Z = "[[0, 0], [1, 0], [0, 1], [1, 1]]" and f = FairPolicy_init
      and ?r1.0 = "[0, 1, 2, 3]" and r1' = "[1, 0, 2, 3]"
      and ?r2.0 = "[2, 3, 0, 1]" and r2' = "[3, 2, 0, 1]"
      and ZG = "[[0, 1], [1, 1]]" and yG = "[3, 5]"
      and ZG_test = "[[0, 0], [1, 0]]" and yG_test = "[1, 2]"
      and ZG_test' = "[[1, 0], [0, 0]]" and yG_test' = "[2, 1]"
      and ZL = "[[0, 0], [1, 0]]" and yL = "[2, 1]"
      and ZL_test = "[[0, 1], [1, 1]]" and yL_test = "[4, 3]"
      and ZL_test' = "[[1, 1], [0, 1]]" and yL_test' = "[3, 4]"]
  have u: "fst (UnawarePolicy_train reference_sklearn [0, 1, 2, 3, 4] UnawarePolicy_init
          [2, 1, 3, 5, 4] [1, 3, 2, 4, 5] [1, 3, 2, 4, 3])
     = fst (UnawarePolicy_train reference_sklearn [1, 0, 2, 3, 4] UnawarePolicy_init
          [2, 1, 3, 5, 4] [1, 3, 2, 4, 5] [1, 3, 2, 4, 3])"
    using inst [THEN conjunct1] run_hstack sa sc by blast
  have "fst ?ta = fst ?tb"
    using inst [THEN conjunct2] fair_hstack fair_split_G fair_split_L na nb
    unfolding ref_simps by blast
  then show ?thesis using run_hstack sa sc u na nb by blast
qed

text \<open>
  C1 as first stated, with the fitted parameters and the mask independent of the partition,
  fails. Two partitions with different training rows give different fitted parameters and
  different masks: five applicants, \<open>G = [2,1,3,5,4]\<close>, \<open>L = [1,3,2,4,5]\<close>,
  \<open>F = [1,3,2,4,3]\<close>, one seat. With rows 2, 3, 4 as the training part the regression is
  \<open>F = G - 1\<close> and applicant 3 is accepted; with rows 0, 1, 2 it is \<open>F = L\<close> and applicant 4 is
  accepted.
\<close>

theorem split_changes_mask:
  "F_reg (fst (UnawarePolicy_train reference_sklearn [0, 1, 2, 3, 4] UnawarePolicy_init
       [2, 1, 3, 5, 4] [1, 3, 2, 4, 5] [1, 3, 2, 4, 3])) = Some (- 1, 1, 0) \<and>
   F_reg (fst (UnawarePolicy_train reference_sklearn [3, 4, 0, 1, 2] UnawarePolicy_init
       [2, 1, 3, 5, 4] [1, 3, 2, 4, 5] [1, 3, 2, 4, 3])) = Some (0, 0, 1) \<and>
   UnawarePolicy_evaluate reference_sklearn
     (fst (UnawarePolicy_train reference_sklearn [0, 1, 2, 3, 4] UnawarePolicy_init
       [2, 1, 3, 5, 4] [1, 3, 2, 4, 5] [1, 3, 2, 4, 3]))
     [2, 1, 3, 5, 4] [1, 3, 2, 4, 5] (PyInt 1) = Inr [False, False, False, True, False] \<and>
   UnawarePolicy_evaluate reference_sklearn
     (fst (UnawarePolicy_train reference_sklearn [3, 4, 0, 1, 2] UnawarePolicy_init
       [2, 1, 3, 5, 4] [1, 3, 2, 4, 5] [1, 3, 2, 4, 3]))
     [2, 1, 3, 5, 4] [1, 3, 2, 4, 5] (PyInt 1) = Inr [False, False, False, False, True]"
  unfolding run_train_a run_train_b fst_conv run_evaluate_a run_evaluate_b
  by simp

text \<open>
  C9. Calling \<^verbatim>\<open>train\<close> a second time with the same inputs and the same state of the random
  generator at the split (a fixed seed) leaves the instance as the first call left it, with
  the same outcome, so every later \<^verbatim>\<open>evaluate\<close> returns the same result as after the first
  call.
\<close>

theorem train_idempotent:
  "UnawarePolicy_train lib rng (fst (UnawarePolicy_train lib rng u G L F)) G L F
     = UnawarePolicy_train lib rng u G L F \<and>
   UnawarePolicy_evaluate lib
       (fst (UnawarePolicy_train lib rng (fst (UnawarePolicy_train lib rng u G L F)) G L F)) G1 L1 ns
     = UnawarePolicy_evaluate lib (fst (UnawarePolicy_train lib rng u G L F)) G1 L1 ns \<and>
   FairPolicy_train lib rng1 rng2 (fst (FairPolicy_train lib rng1 rng2 f R S G L)) R S G L
     = FairPolicy_train lib rng1 rng2 f R S G L \<and>
   FairPolicy_evaluate lib
       (fst (FairPolicy_train lib rng1 rng2 (fst (FairPolicy_train lib rng1 rng2 f R S G L)) R S G L))
       R1 S1 G1 L1 ns
     = FairPolicy_evaluate lib (fst (FairPolicy_train lib rng1 rng2 f R S G L)) R1 S1 G1 L1 ns"
  by (simp only: UnawarePolicy_train_again FairPolicy_train_again)

theorem train_idempotent_witness:
  "UnawarePolicy_train reference_sklearn [0, 1, 2, 3, 4]
     (fst (UnawarePolicy_train reference_sklearn [0, 1, 2, 3, 4] UnawarePolicy_init
        [2, 1, 3, 5, 4] [1, 3, 2, 4, 5] [1, 3, 2, 4, 3]))
     [2, 1, 3, 5, 4] [1, 3, 2, 4, 5] [1, 3, 2, 4, 3] = (\<lparr>F_reg = Some (- 1, 1, 0)\<rparr>, None)"
  using train_idempotent [where lib = reference_sklearn and rng = "[0, 1, 2, 3, 4]"
      and u = UnawarePolicy_init and G = "[2, 1, 3, 5, 4]" and L = "[1, 3, 2, 4, 5]"
      and F = "[1, 3, 2, 4, 3]", THEN conjunct1]
  by (simp only: run_train_a)



text \<open>
  C6. \<^verbatim>\<open>evaluate\<close> on an unaware or a fair policy whose fitted attributes have never been
  assigned fails, on an input that passes the assertions, with an \<^verbatim>\<open>AttributeError\<close> that
  names the missing regression model (\<^verbatim>\<open>F_reg\<close>, respectively \<^verbatim>\<open>G_reg\<close>). Once a call of
  \<^verbatim>\<open>train\<close> has completed, \<^verbatim>\<open>evaluate\<close> returns a mask on every input that passes the
  assertions and has at least one row, provided that the library's \<^verbatim>\<open>predict\<close> and
  \<^verbatim>\<open>transform\<close> return one value for each row.
\<close>

theorem evaluate_requires_train:
  "(length G = length L \<and> \<not> bad_seats ns \<and> F_reg u = None \<longrightarrow>
      UnawarePolicy_evaluate lib u G L ns = Inl (AttributeError ''F_reg'')) \<and>
   (length R = length S \<and> length S = length G \<and> length G = length L \<and> \<not> bad_seats ns \<and>
    G_reg f = None \<longrightarrow>
      FairPolicy_evaluate lib f R S G L ns = Inl (AttributeError ''G_reg'')) \<and>
   (sklearn_contract lib \<and> UnawarePolicy_train lib rng u G0 L0 F0 = (u', None) \<and>
    G \<noteq> [] \<and> length G = length L \<and> \<not> bad_seats ns \<longrightarrow>
      (\<exists>P. UnawarePolicy_evaluate lib u' G L ns = Inr P \<and> length P = length G)) \<and>
   (sklearn_contract lib \<and> FairPolicy_train lib rng1 rng2 f R0 S0 G0 L0 = (f', None) \<and>
    R \<noteq> [] \<and> length R = length S \<and> length S = length G \<and> length G = length L \<and>
    \<not> bad_seats ns \<longrightarrow>
      (\<exists>P. FairPolicy_evaluate lib f' R S G L ns = Inr P \<and> length P = length R))"
proof -
  have c1: "length G = length L \<and> \<not> bad_seats ns \<and> F_reg u = None \<longrightarrow>
      UnawarePolicy_evaluate lib u G L ns = Inl (AttributeError ''F_reg'')"
    by (rule impI, elim conjE, rule UnawarePolicy_evaluate_untrained; assumption)
  have c2: "length R = length S \<and> length S = length G \<and> length G = length L \<and> \<not> bad_seats ns \<and>
    G_reg f = None \<longrightarrow>
      FairPolicy_evaluate lib f R S G L ns = Inl (AttributeError ''G_reg'')"
    by (rule impI, elim conjE, rule FairPolicy_evaluate_untrained; assumption)
  have c3: "sklearn_contract lib \<and> UnawarePolicy_train lib rng u G0 L0 F0 = (u', None) \<and>
    G \<noteq> [] \<and> length G = length L \<and> \<not> bad_seats ns \<longrightarrow>
      (\<exists>P. UnawarePolicy_evaluate lib u' G L ns = Inr P \<and> length P = length G)"
    by (rule impI, elim conjE, rule UnawarePolicy_evaluate_after_train; assumption)
  have c4: "sklearn_contract lib \<and> FairPolicy_train lib rng1 rng2 f R0 S0 G0 L0 = (f', None) \<and>
    R \<noteq> [] \<and> length R = length S \<and> length S = length G \<and> length G = length L \<and>
    \<not> bad_seats ns \<longrightarrow>
      (\<exists>P. FairPolicy_evaluate lib f' R S G L ns = Inr P \<and> length P = length R)"
    by (rule impI, elim conjE, rule FairPolicy_evaluate_after_train; assumption)
  show ?thesis by (rule conjI [OF c1 conjI [OF c2 conjI [OF c3 c4]]])
qed

theorem evaluate_requires_train_witness:
  "UnawarePolicy_evaluate reference_sklearn UnawarePolicy_init [1, 2] [2, 1] (PyInt 1)
     = Inl (AttributeError ''F_reg'') \<and>
   FairPolicy_evaluate reference_sklearn FairPolicy_init [0, 1] [1, 0] [1, 2] [2, 1] (PyInt 1)
     = Inl (AttributeError ''G_reg'') \<and>
   sklearn_contract reference_sklearn \<and>
   UnawarePolicy_train reference_sklearn [0, 1, 2, 3, 4] UnawarePolicy_init
       [2, 1, 3, 5, 4] [1, 3, 2, 4, 5] [1, 3, 2, 4, 3] = (\<lparr>F_reg = Some (- 1, 1, 0)\<rparr>, None) \<and>
   (\<exists>P. UnawarePolicy_evaluate reference_sklearn \<lparr>F_reg = Some (- 1, 1, 0)\<rparr> [1, 2] [2, 1] (PyInt 1)
          = Inr P \<and> length P = 2) \<and>
   snd (FairPolicy_train reference_sklearn [0, 1, 2, 3] [2, 3, 0, 1] FairPolicy_init
          [0, 1, 0, 1] [0, 0, 1, 1] [1, 2, 3, 5] [2, 1, 4, 3]) = None \<and>
   (\<exists>P. FairPolicy_evaluate reference_sklearn
          (fst (FairPolicy_train reference_sklearn [0, 1, 2, 3] [2, 3, 0, 1] FairPolicy_init
             [0, 1, 0, 1] [0, 0, 1, 1] [1, 2, 3, 5] [2, 1, 4, 3]))
          [0, 1] [1, 0] [1, 2] [2, 1] (PyInt 1) = Inr P \<and> length P = 2)"
proof -
  let ?tf = "FairPolicy_train reference_sklearn [0, 1, 2, 3] [2, 3, 0, 1] FairPolicy_init
          [0, 1, 0, 1] [0, 0, 1, 1] [1, 2, 3, 5] [2, 1, 4, 3]"
  note inst = evaluate_requires_train [where lib = reference_sklearn
      and G = "[1, 2]" and L = "[2, 1]" and ns = "PyInt 1" and R = "[0, 1]" and S = "[1, 0]"
      and u = UnawarePolicy_init and f = FairPolicy_init
      and rng = "[0, 1, 2, 3, 4]" and ?G0.0 = "[2, 1, 3, 5, 4]" and ?L0.0 = "[1, 3, 2, 4, 5]"
      and ?F0.0 = "[1, 3, 2, 4, 3]" and u' = "\<lparr>F_reg = Some (- 1, 1, 0)\<rparr>"]
  note instf = evaluate_requires_train [where lib = reference_sklearn
      and G = "[1, 2]" and L = "[2, 1]" and ns = "PyInt 1" and R = "[0, 1]" and S = "[1, 0]"
      and f = FairPolicy_init and ?rng1.0 = "[0, 1, 2, 3]" and ?rng2.0 = "[2, 3, 0, 1]"
      and ?R0.0 = "[0, 1, 0, 1]" and ?S0.0 = "[0, 0, 1, 1]"
      and ?G0.0 = "[1, 2, 3, 5]" and ?L0.0 = "[2, 1, 4, 3]" and f' = "fst ?tf"]
  have a: "UnawarePolicy_evaluate reference_sklearn UnawarePolicy_init [1, 2] [2, 1] (PyInt 1)
     = Inl (AttributeError ''F_reg'')"
    using inst [THEN conjunct1] by (simp add: UnawarePolicy_init_def)
  have b: "FairPolicy_evaluate reference_sklearn FairPolicy_init [0, 1] [1, 0] [1, 2] [2, 1] (PyInt 1)
     = Inl (AttributeError ''G_reg'')"
    using inst [THEN conjunct2, THEN conjunct1] by (simp add: FairPolicy_init_def)
  have c: "\<exists>P. UnawarePolicy_evaluate reference_sklearn \<lparr>F_reg = Some (- 1, 1, 0)\<rparr>
      [1, 2] [2, 1] (PyInt 1) = Inr P \<and> length P = 2"
    using inst [THEN conjunct2, THEN conjunct2, THEN conjunct1] reference_contract run_train_a
    by (simp add: numeral_2_eq_2)
  have sf: "snd ?tf = None"
    using reference_FairPolicy_train_ok [OF fair_hstack _ _ fair_split_G(1) fair_split_L(1),
        of FairPolicy_init]
    by auto
  then have tf: "?tf = (fst ?tf, None)" by (metis prod.collapse)
  have d: "\<exists>P. FairPolicy_evaluate reference_sklearn (fst ?tf)
      [0, 1] [1, 0] [1, 2] [2, 1] (PyInt 1) = Inr P \<and> length P = 2"
    using instf [THEN conjunct2, THEN conjunct2, THEN conjunct2] reference_contract tf
    by (simp add: numeral_2_eq_2)
  show ?thesis using a b reference_contract run_train_a c sf d by blast
qed



end
